theory Spec2Isabelle
  imports Complex_Main
begin

section \<open>JavaScript values read by the vehicle code\<close>

text \<open>
  The payloads handed to \<^verbatim>\<open>AustraliaVehicle\<close> are parsed JSON of type \<^verbatim>\<open>any\<close>.
  A number is an IEEE double in the source; here a finite number is the rational it
  denotes (\<^verbatim>\<open>-0\<close> is identified with \<^verbatim>\<open>0\<close>), next to the three non-finite values.
  Arithmetic on numbers is computed where the double result is exact and is left to a
  parameter where it rounds.
\<close>

datatype number = Fin rat | NaN | PosInf | NegInf

datatype js =
    Undefined
  | Null
  | Bool bool
  | Num number
  | Str string
  | Arr "js list"
  | Obj "(string \<times> js) list"

text \<open>What the source can throw: a \<^verbatim>\<open>TypeError\<close> of the runtime (a property read on
  \<^verbatim>\<open>undefined\<close> or \<^verbatim>\<open>null\<close>), \<^verbatim>\<open>new Error(msg)\<close> and
  \<^verbatim>\<open>new ManagedBluelinkyError(msg)\<close>.\<close>

datatype er = TypeError | Error string | ManagedBluelinkyError string

definition nullish :: "js \<Rightarrow> bool" where
  "nullish v = (v = Undefined \<or> v = Null)"

text \<open>\<^verbatim>\<open>ToBoolean\<close>: what \<^verbatim>\<open>!v\<close>, \<^verbatim>\<open>!!v\<close>, \<^verbatim>\<open>v ? a : b\<close> and \<^verbatim>\<open>a || b\<close> test.\<close>

fun truthy :: "js \<Rightarrow> bool" where
  "truthy Undefined = False"
| "truthy Null = False"
| "truthy (Bool b) = b"
| "truthy (Num (Fin r)) = (r \<noteq> 0)"
| "truthy (Num NaN) = False"
| "truthy (Num PosInf) = True"
| "truthy (Num NegInf) = True"
| "truthy (Str s) = (s \<noteq> [])"
| "truthy (Arr xs) = True"
| "truthy (Obj kvs) = True"

text \<open>\<^verbatim>\<open>v.k\<close> on a value that is neither \<^verbatim>\<open>undefined\<close> nor \<^verbatim>\<open>null\<close>. An object
  holds one entry for each of its own keys. None of the property names this code reads is a
  built-in property of a string, an array, a number or a boolean, so on those the read is
  \<^verbatim>\<open>undefined\<close>.\<close>

fun lookup :: "js \<Rightarrow> string \<Rightarrow> js" where
  "lookup (Obj kvs) k = (case map_of kvs k of None \<Rightarrow> Undefined | Some v \<Rightarrow> v)"
| "lookup v k = Undefined"

text \<open>\<^verbatim>\<open>v.k\<close>: throws on \<^verbatim>\<open>undefined\<close> and \<^verbatim>\<open>null\<close>.\<close>

definition dot :: "js \<Rightarrow> string \<Rightarrow> er + js" where
  "dot v k = (if nullish v then Inl TypeError else Inr (lookup v k))"

text \<open>\<^verbatim>\<open>v?.k\<close>.\<close>

definition qdot :: "js \<Rightarrow> string \<Rightarrow> js" where
  "qdot v k = (if nullish v then Undefined else lookup v k)"

text \<open>\<^verbatim>\<open>v[0]\<close>: throws on \<^verbatim>\<open>undefined\<close> and \<^verbatim>\<open>null\<close>; the first element of an
  array, the first character of a string, the property \<^verbatim>\<open>"0"\<close> of an object.\<close>

fun at0 :: "js \<Rightarrow> er + js" where
  "at0 Undefined = Inl TypeError"
| "at0 Null = Inl TypeError"
| "at0 (Arr []) = Inr Undefined"
| "at0 (Arr (x # xs)) = Inr x"
| "at0 (Str []) = Inr Undefined"
| "at0 (Str (c # cs)) = Inr (Str [c])"
| "at0 (Obj kvs) = Inr (lookup (Obj kvs) ''0'')"
| "at0 v = Inr Undefined"

text \<open>\<^verbatim>\<open>a ?? b\<close> and \<^verbatim>\<open>a || b\<close>.\<close>

definition nullish_or :: "js \<Rightarrow> js \<Rightarrow> js" where
  "nullish_or a b = (if nullish a then b else a)"

definition falsy_or :: "js \<Rightarrow> js \<Rightarrow> js" where
  "falsy_or a b = (if truthy a then a else b)"

text \<open>A \<^verbatim>\<open>Date\<close> is its time value: milliseconds since the epoch, or none for an
  invalid date. \<^verbatim>\<open>TimeClip\<close> is what \<^verbatim>\<open>new Date(n)\<close> applies to a number.\<close>

datatype date = Date "int option"

fun TimeClip :: "number \<Rightarrow> int option" where
  "TimeClip (Fin r) =
     (if \<bar>r\<bar> \<le> 8640000000000000 then Some (if 0 \<le> r then \<lfloor>r\<rfloor> else \<lceil>r\<rceil>) else None)"
| "TimeClip n = None"

text \<open>Sequencing of steps that can throw: the first exception ends the evaluation.\<close>

definition bindE :: "er + 'a \<Rightarrow> ('a \<Rightarrow> er + 'b) \<Rightarrow> er + 'b" where
  "bindE m f = (case m of Inl e \<Rightarrow> Inl e | Inr v \<Rightarrow> f v)"

text \<open>\<^verbatim>\<open>v1?.k1?.k2 ...\<close>: a chain of optional reads.\<close>

definition qpath :: "js \<Rightarrow> string list \<Rightarrow> js" where
  "qpath v ks = foldl qdot v ks"

text \<open>\<^verbatim>\<open>v === n\<close> for a number literal \<^verbatim>\<open>n\<close>.\<close>

definition strict_eq_num :: "js \<Rightarrow> rat \<Rightarrow> bool" where
  "strict_eq_num v n = (v = Num (Fin n))"

fun number_pos :: "number \<Rightarrow> bool" where
  "number_pos (Fin r) = (0 < r)"
| "number_pos PosInf = True"
| "number_pos n = False"

text \<open>The decimal value of a string of digits.\<close>

definition digit :: "char \<Rightarrow> bool" where
  "digit c = (48 \<le> (of_char c :: nat) \<and> (of_char c :: nat) \<le> 57)"

definition decimal :: "string \<Rightarrow> nat" where
  "decimal s = foldl (\<lambda>n c. 10 * n + (of_char c - 48)) 0 s"

text \<open>The value of an unsigned decimal literal without exponent: \<^verbatim>\<open>12\<close>, \<^verbatim>\<open>12.\<close>,
  \<^verbatim>\<open>12.5\<close> or \<^verbatim>\<open>.5\<close>.\<close>

definition decimal_literal :: "string \<Rightarrow> rat option" where
  "decimal_literal s =
     (let whole = takeWhile digit s; rest = dropWhile digit s
      in if rest = [] then (if whole = [] then None else Some (of_nat (decimal whole)))
         else if hd rest = CHR ''.'' \<and> list_all digit (tl rest) \<and> (whole \<noteq> [] \<or> tl rest \<noteq> [])
         then Some (of_nat (decimal (whole @ tl rest)) / 10 ^ length (tl rest))
         else None)"

text \<open>Rationals that are doubles, so that no rounding takes place: an integer of magnitude at
  most \<open>2\<^sup>5\<^sup>3\<close>, and such an integer divided by 1024 when the quotient is at most
  \<open>2\<^sup>3\<^sup>2\<close> in magnitude (a sufficient test, not a necessary one).\<close>

definition safe_integer :: "rat \<Rightarrow> bool" where
  "safe_integer r = (of_int \<lfloor>r\<rfloor> = r \<and> \<bar>r\<bar> \<le> 9007199254740992)"

definition exact_double :: "rat \<Rightarrow> bool" where
  "exact_double r = (safe_integer r \<or> (safe_integer (r * 1024) \<and> \<bar>r\<bar> \<le> 4294967296))"

section \<open>What the file imports\<close>

text \<open>
  \<^verbatim>\<open>australia.vehicle.ts\<close> imports its helpers from \<^verbatim>\<open>../util\<close>,
  \<^verbatim>\<open>../constants\<close>, \<^verbatim>\<open>../tools/common.tools\<close> and
  \<^verbatim>\<open>../interfaces/common.interfaces\<close>. They are parameters here, each allowed to throw
  where it is a function.
  The record also carries the part of each JavaScript built-in that is not computed in this
  theory: a sum of doubles that is rounded, the conversion of an arbitrary string to a number,
  the parsing of a date string, and the operations that first convert an object to a
  primitive (which calls the object's \<^verbatim>\<open>valueOf\<close>/\<^verbatim>\<open>toString\<close> and can throw).
\<close>

record externals =
  tempCodeToCelsius :: "js \<Rightarrow> er + js"
    \<comment> \<open>\<^verbatim>\<open>tempCodeToCelsius(REGIONS.AU, code)\<close> of \<^verbatim>\<open>../util\<close>\<close>
  parseDate :: "js \<Rightarrow> er + date"
    \<comment> \<open>\<^verbatim>\<open>parseDate(str)\<close> of \<^verbatim>\<open>../util\<close>\<close>
  addMinutes :: "date \<Rightarrow> js \<Rightarrow> er + date"
    \<comment> \<open>\<^verbatim>\<open>addMinutes(date, minutes)\<close> of \<^verbatim>\<open>../util\<close>\<close>
  manageBluelinkyError :: "er \<Rightarrow> string \<Rightarrow> er"
    \<comment> \<open>\<^verbatim>\<open>manageBluelinkyError(err, context)\<close> of \<^verbatim>\<open>../tools/common.tools\<close>\<close>
  UNPLUGED :: js
    \<comment> \<open>\<^verbatim>\<open>EVPlugTypes.UNPLUGED\<close>\<close>
  POSSIBLE_CHARGE_LIMIT_VALUES :: "int list"
  add_rounded :: "rat \<Rightarrow> rat \<Rightarrow> number"
    \<comment> \<open>\<^verbatim>\<open>a + b\<close> for two finite numbers whose sum is rounded\<close>
  Number_other :: "string \<Rightarrow> number"
    \<comment> \<open>\<^verbatim>\<open>Number(s)\<close> for a string that is neither empty nor a decimal literal whose
       value is a double\<close>
  Date_parse :: "string \<Rightarrow> date"
    \<comment> \<open>\<^verbatim>\<open>new Date(s)\<close> for a string\<close>
  Date_object :: "js \<Rightarrow> er + date"
    \<comment> \<open>\<^verbatim>\<open>new Date(v)\<close> for an array or an object\<close>
  gt0_object :: "js \<Rightarrow> er + bool"
    \<comment> \<open>\<^verbatim>\<open>v > 0\<close> for an array or an object\<close>
  plus_other :: "js \<Rightarrow> js \<Rightarrow> er + js"
    \<comment> \<open>\<^verbatim>\<open>a + b\<close> when one operand is a string, an array or an object\<close>
  ToString_other :: "js \<Rightarrow> er + string"
    \<comment> \<open>\<^verbatim>\<open>`${v}`\<close> for a number, an array or an object\<close>

text \<open>\<^verbatim>\<open>Number(h)\<close> for a header value \<^verbatim>\<open>h\<close> of type \<^verbatim>\<open>string | undefined\<close>: the
  value of a decimal literal when that value is a double.\<close>

definition Number_js :: "externals \<Rightarrow> string option \<Rightarrow> number" where
  "Number_js X h =
     (case h of
        None \<Rightarrow> NaN
      | Some s \<Rightarrow>
          if s = [] then Fin 0
          else (case decimal_literal s of
                  None \<Rightarrow> Number_other X s
                | Some v \<Rightarrow> if exact_double v then Fin v else Number_other X s))"

text \<open>Addition of numbers. A sum with zero, and a sum of two integers that stays within
  \<open>2\<^sup>5\<^sup>3\<close> in magnitude, is exact.\<close>

fun number_add :: "externals \<Rightarrow> number \<Rightarrow> number \<Rightarrow> number" where
  "number_add X (Fin a) (Fin b) =
     (if a = 0 then Fin b
      else if b = 0 then Fin a
      else if safe_integer a \<and> safe_integer b \<and> safe_integer (a + b) then Fin (a + b)
      else add_rounded X a b)"
| "number_add X NaN y = NaN"
| "number_add X x NaN = NaN"
| "number_add X PosInf NegInf = NaN"
| "number_add X NegInf PosInf = NaN"
| "number_add X PosInf y = PosInf"
| "number_add X NegInf y = NegInf"
| "number_add X x PosInf = PosInf"
| "number_add X x NegInf = NegInf"

text \<open>\<^verbatim>\<open>ToNumber\<close> of a primitive that is not a string.\<close>

fun ToNumber_prim :: "js \<Rightarrow> number" where
  "ToNumber_prim (Num n) = n"
| "ToNumber_prim (Bool b) = Fin (if b then 1 else 0)"
| "ToNumber_prim Null = Fin 0"
| "ToNumber_prim v = NaN"

fun prim_nonstring :: "js \<Rightarrow> bool" where
  "prim_nonstring Undefined = True"
| "prim_nonstring Null = True"
| "prim_nonstring (Bool b) = True"
| "prim_nonstring (Num n) = True"
| "prim_nonstring v = False"

text \<open>\<^verbatim>\<open>a + b\<close>.\<close>

definition js_plus :: "externals \<Rightarrow> js \<Rightarrow> js \<Rightarrow> er + js" where
  "js_plus X a b =
     (if prim_nonstring a \<and> prim_nonstring b
      then Inr (Num (number_add X (ToNumber_prim a) (ToNumber_prim b)))
      else plus_other X a b)"

text \<open>\<^verbatim>\<open>v > 0\<close>.\<close>

fun gt0 :: "externals \<Rightarrow> js \<Rightarrow> er + bool" where
  "gt0 X (Str s) = Inr (number_pos (Number_js X (Some s)))"
| "gt0 X (Arr xs) = gt0_object X (Arr xs)"
| "gt0 X (Obj kvs) = gt0_object X (Obj kvs)"
| "gt0 X v = Inr (number_pos (ToNumber_prim v))"

text \<open>\<^verbatim>\<open>new Date(v)\<close>.\<close>

fun newDate :: "externals \<Rightarrow> js \<Rightarrow> er + date" where
  "newDate X (Str s) = Inr (Date_parse X s)"
| "newDate X (Arr xs) = Date_object X (Arr xs)"
| "newDate X (Obj kvs) = Date_object X (Obj kvs)"
| "newDate X v = Inr (Date (TimeClip (ToNumber_prim v)))"

section \<open>The vehicle status\<close>

record OpenDoors =
  frontRight :: bool
  frontLeft :: bool
  backLeft :: bool
  backRight :: bool

record TirePressureWarningLamp =
  rearLeft :: bool
  frontLeft :: bool
  frontRight :: bool
  rearRight :: bool
  all :: bool

record Chassis =
  hoodOpen :: js
  trunkOpen :: js
  locked :: js
  openDoors :: OpenDoors
  tirePressureWarningLamp :: TirePressureWarningLamp

record Climate =
  active :: js
  steeringwheelHeat :: bool
  sideMirrorHeat :: bool
  rearWindowHeat :: bool
  defrost :: js
  temperatureSetpoint :: js
  temperatureUnit :: js

record Engine =
  ignition :: js
  accessory :: js
  rangeGas :: js
  range' :: js
  rangeEV :: js
  plugedTo :: js
  charging :: js
  estimatedCurrentChargeDuration :: js
  estimatedFastChargeDuration :: js
  estimatedPortableChargeDuration :: js
  estimatedStationChargeDuration :: js
  batteryCharge12v :: js
  batteryChargeHV :: js

record VehicleStatus =
  chassis :: Chassis
  climate :: Climate
  engine :: Engine
  lastupdate :: "date option"

subsection \<open>The legacy mapping\<close>

text \<open>\<^verbatim>\<open>body.evStatus?.drvDistance[0]\<close>: the optional read guards \<^verbatim>\<open>evStatus\<close> only, so
  the index is applied to whatever \<^verbatim>\<open>drvDistance\<close> is. The source evaluates this prefix
  three times (for \<^verbatim>\<open>rangeGas\<close>, \<^verbatim>\<open>range\<close> and \<^verbatim>\<open>rangeEV\<close>), each time with the same
  outcome.\<close>

definition drvDistance0 :: "js \<Rightarrow> er + js" where
  "drvDistance0 body =
     (let evStatus = lookup body ''evStatus''
      in if nullish evStatus then Inr Undefined else at0 (lookup evStatus ''drvDistance''))"

text \<open>The object literal that \<^verbatim>\<open>parseVehicleStatus\<close> returns, lines 251-297, given the
  outcomes of the steps in it that can throw: the temperature setpoint, the first entry of
  \<^verbatim>\<open>drvDistance\<close> and the parsed time.\<close>

definition legacy_literal :: "externals \<Rightarrow> js \<Rightarrow> js \<Rightarrow> js \<Rightarrow> date option \<Rightarrow> VehicleStatus" where
  "legacy_literal X body setpoint d0 updated =
   \<lparr>
     chassis = \<lparr>
       hoodOpen = lookup body ''hoodOpen'',
       trunkOpen = lookup body ''trunkOpen'',
       locked = lookup body ''doorLock'',
       openDoors = \<lparr>
         OpenDoors.frontRight = truthy (qdot (lookup body ''doorOpen'') ''frontRight''),
         OpenDoors.frontLeft = truthy (qdot (lookup body ''doorOpen'') ''frontLeft''),
         backLeft = truthy (qdot (lookup body ''doorOpen'') ''backLeft''),
         backRight = truthy (qdot (lookup body ''doorOpen'') ''backRight'') \<rparr>,
       tirePressureWarningLamp = \<lparr>
         rearLeft = truthy (qdot (lookup body ''tirePressureLamp'') ''tirePressureLampRL''),
         frontLeft = truthy (qdot (lookup body ''tirePressureLamp'') ''tirePressureLampFL''),
         frontRight = truthy (qdot (lookup body ''tirePressureLamp'') ''tirePressureLampFR''),
         rearRight = truthy (qdot (lookup body ''tirePressureLamp'') ''tirePressureLampRR''),
         all = truthy (qdot (lookup body ''tirePressureLamp'') ''tirePressureWarningLampAll'') \<rparr> \<rparr>,
     climate = \<lparr>
       active = lookup body ''airCtrlOn'',
       steeringwheelHeat = truthy (lookup body ''steerWheelHeat''),
       sideMirrorHeat = False,
       rearWindowHeat = truthy (lookup body ''sideBackWindowHeat''),
       defrost = lookup body ''defrost'',
       temperatureSetpoint = setpoint,
       temperatureUnit = qdot (lookup body ''airTemp'') ''unit'' \<rparr>,
     engine = \<lparr>
       ignition = lookup body ''engine'',
       accessory = lookup body ''acc'',
       rangeGas = nullish_or (qpath d0 [''rangeByFuel'', ''gasModeRange'', ''value''])
                             (qdot (lookup body ''dte'') ''value''),
       range' = qpath d0 [''rangeByFuel'', ''totalAvailableRange'', ''value''],
       rangeEV = qpath d0 [''rangeByFuel'', ''evModeRange'', ''value''],
       plugedTo = nullish_or (qdot (lookup body ''evStatus'') ''batteryPlugin'') (UNPLUGED X),
       charging = qdot (lookup body ''evStatus'') ''batteryCharge'',
       estimatedCurrentChargeDuration =
         qpath (lookup body ''evStatus'') [''remainTime2'', ''atc'', ''value''],
       estimatedFastChargeDuration =
         qpath (lookup body ''evStatus'') [''remainTime2'', ''etc1'', ''value''],
       estimatedPortableChargeDuration =
         qpath (lookup body ''evStatus'') [''remainTime2'', ''etc2'', ''value''],
       estimatedStationChargeDuration =
         qpath (lookup body ''evStatus'') [''remainTime2'', ''etc3'', ''value''],
       batteryCharge12v = qdot (lookup body ''battery'') ''batSoc'',
       batteryChargeHV = qdot (lookup body ''evStatus'') ''batteryStatus'' \<rparr>,
     lastupdate = updated \<rparr>"

text \<open>\<^verbatim>\<open>parseVehicleStatus(body)\<close>, lines 250-298. The fields of the object literal are
  evaluated from top to bottom; the first read \<^verbatim>\<open>body.hoodOpen\<close> throws when \<^verbatim>\<open>body\<close> is
  \<^verbatim>\<open>undefined\<close> or \<^verbatim>\<open>null\<close>, and after it \<^verbatim>\<open>body.k\<close> is a plain lookup.\<close>

definition parseVehicleStatus :: "externals \<Rightarrow> js \<Rightarrow> er + VehicleStatus" where
  "parseVehicleStatus X body =
    bindE (dot body ''hoodOpen'') (\<lambda>hood.
    bindE (tempCodeToCelsius X (qdot (lookup body ''airTemp'') ''value'')) (\<lambda>setpoint.
    bindE (drvDistance0 body) (\<lambda>d0.
    bindE (if truthy (lookup body ''time'')
           then bindE (parseDate X (lookup body ''time'')) (\<lambda>d. Inr (Some d))
           else Inr None) (\<lambda>updated.
    Inr (legacy_literal X body setpoint d0 updated)))))"

subsection \<open>The CCS2 mapping\<close>

text \<open>The object literal that \<^verbatim>\<open>parseCCS2VehicleStatus\<close> returns, lines 309-357, given
  the variables \<^verbatim>\<open>vehicleState\<close>, \<^verbatim>\<open>axle\<close>, \<^verbatim>\<open>door\<close> and \<^verbatim>\<open>charging\<close> and the
  outcomes of the two steps in it that can throw: the comparison \<^verbatim>\<open>RemainTime > 0\<close> and
  \<^verbatim>\<open>new Date(body.lastUpdateTime)\<close>. Past the test of line 305 \<^verbatim>\<open>vehicleState\<close>,
  \<^verbatim>\<open>axle\<close> and \<^verbatim>\<open>door\<close> are truthy, so a read on them is the first step of an optional
  chain.\<close>

definition ccs2_literal ::
  "externals \<Rightarrow> js \<Rightarrow> js \<Rightarrow> js \<Rightarrow> js \<Rightarrow> bool \<Rightarrow> date \<Rightarrow> VehicleStatus" where
  "ccs2_literal X vehicleState axle door charging0 remaining updated =
   \<lparr>
     chassis = \<lparr>
       hoodOpen = Bool (strict_eq_num (qpath vehicleState [''Body'', ''Hood'', ''Open'']) 1),
       trunkOpen = Bool (strict_eq_num (qpath vehicleState [''Body'', ''Trunk'', ''Open'']) 1),
       locked = Bool (
         strict_eq_num (qpath door [''Row1'', ''Driver'', ''Lock'']) 1 \<and>
         strict_eq_num (qpath door [''Row1'', ''Passenger'', ''Lock'']) 1 \<and>
         strict_eq_num (qpath door [''Row2'', ''Left'', ''Lock'']) 1 \<and>
         strict_eq_num (qpath door [''Row2'', ''Right'', ''Lock'']) 1),
       openDoors = \<lparr>
         OpenDoors.frontRight = strict_eq_num (qpath door [''Row1'', ''Driver'', ''Open'']) 1,
         OpenDoors.frontLeft = strict_eq_num (qpath door [''Row1'', ''Passenger'', ''Open'']) 1,
         backLeft = strict_eq_num (qpath door [''Row2'', ''Left'', ''Open'']) 1,
         backRight = strict_eq_num (qpath door [''Row2'', ''Right'', ''Open'']) 1 \<rparr>,
       tirePressureWarningLamp = \<lparr>
         rearLeft = strict_eq_num (qpath axle [''Row2'', ''Left'', ''Tire'', ''PressureLow'']) 1,
         frontLeft = strict_eq_num (qpath axle [''Row1'', ''Left'', ''Tire'', ''PressureLow'']) 1,
         frontRight = strict_eq_num (qpath axle [''Row1'', ''Right'', ''Tire'', ''PressureLow'']) 1,
         rearRight = strict_eq_num (qpath axle [''Row2'', ''Right'', ''Tire'', ''PressureLow'']) 1,
         all = strict_eq_num (qpath axle [''Tire'', ''PressureLow'']) 1 \<rparr> \<rparr>,
     climate = \<lparr>
       active = Bool (\<not> strict_eq_num
         (qpath vehicleState [''Cabin'', ''HVAC'', ''Row1'', ''Driver'', ''Blower'', ''SpeedLevel'']) 0),
       steeringwheelHeat =
         strict_eq_num (qpath vehicleState [''Cabin'', ''SteeringWheel'', ''Heat'', ''State'']) 1,
       sideMirrorHeat = False,
       rearWindowHeat = False,
       defrost = Bool False,
       temperatureSetpoint =
         qpath vehicleState [''Cabin'', ''HVAC'', ''Row1'', ''Driver'', ''Temperature'', ''Value''],
       temperatureUnit =
         qpath vehicleState [''Cabin'', ''HVAC'', ''Row1'', ''Driver'', ''Temperature'', ''Unit''] \<rparr>,
     engine = \<lparr>
       ignition = Bool (strict_eq_num
         (qpath vehicleState [''Electronics'', ''PowerSupply'', ''Ignition1'']) 1),
       accessory = Bool (strict_eq_num
         (qpath vehicleState [''Electronics'', ''PowerSupply'', ''Accessory'']) 1),
       rangeGas = qpath vehicleState [''Drivetrain'', ''FuelSystem'', ''DTE'', ''Total''],
       range' = qpath vehicleState [''Drivetrain'', ''FuelSystem'', ''DTE'', ''Total''],
       rangeEV = qpath vehicleState [''Drivetrain'', ''FuelSystem'', ''DTE'', ''Total''],
       plugedTo = falsy_or (qpath charging0 [''ConnectorFastening'', ''State'']) (UNPLUGED X),
       charging = Bool remaining,
       estimatedCurrentChargeDuration = qpath charging0 [''Charging'', ''RemainTime''],
       estimatedFastChargeDuration = qpath charging0 [''EstimatedTime'', ''Standard''],
       estimatedPortableChargeDuration = qpath charging0 [''EstimatedTime'', ''ICCB''],
       estimatedStationChargeDuration = qpath charging0 [''EstimatedTime'', ''Quick''],
       batteryCharge12v = qpath vehicleState [''Electronics'', ''Battery'', ''Level''],
       batteryChargeHV =
         qpath vehicleState [''Green'', ''BatteryManagement'', ''BatteryRemain'', ''Ratio''] \<rparr>,
     lastupdate = Some updated \<rparr>"

text \<open>\<^verbatim>\<open>parseCCS2VehicleStatus(body)\<close>, lines 300-358. The three reads on
  \<^verbatim>\<open>vehicleState\<close> come before the test of \<^verbatim>\<open>vehicleState\<close>.\<close>

definition parseCCS2VehicleStatus :: "externals \<Rightarrow> js \<Rightarrow> er + VehicleStatus" where
  "parseCCS2VehicleStatus X body =
    bindE (dot body ''state'') (\<lambda>state.
    let vehicleState = qdot state ''Vehicle'' in
    bindE (dot vehicleState ''Chassis'') (\<lambda>chassis0.
    let axle = qdot chassis0 ''Axle'' in
    bindE (dot vehicleState ''Cabin'') (\<lambda>cabin0.
    let door = qdot cabin0 ''Door'' in
    bindE (dot vehicleState ''Green'') (\<lambda>green0.
    let charging0 = qdot green0 ''ChargingInformation'' in
    if \<not> truthy vehicleState \<or> \<not> truthy axle \<or> \<not> truthy door
    then Inl (Error ''missing vehicle state in vehicle status response'')
    else
    bindE (gt0 X (qpath charging0 [''Charging'', ''RemainTime''])) (\<lambda>remaining.
    bindE (newDate X (lookup body ''lastUpdateTime'')) (\<lambda>updated.
    Inr (ccs2_literal X vehicleState axle door charging0 remaining updated)))))))"

section \<open>Trips\<close>

text \<open>What \<^verbatim>\<open>tripInfo\<close> returns: a month with its days, or a list of days with their
  trips, or nothing. Several of these records have fields of the same name; a field of an
  earlier record is written with the record's name in front.\<close>

record Durations =
  drive :: js
  idle :: js

record Speed =
  avg :: js
  max' :: js

record MonthDay =
  dayRaw :: js
  date :: "date option"
  tripsCount :: js

record VehicleMonthTrip =
  days :: "MonthDay list"
  durations :: Durations
  distance :: js
  speed :: Speed

record Trip =
  timeRaw :: js
  start :: date
  end' :: date
  durations :: Durations
  speed :: Speed
  distance :: js

record VehicleDayTrip =
  dayRaw :: js
  tripsCount :: js
  distance :: js
  durations :: Durations
  speed :: Speed
  trips :: "Trip list"

datatype trip_result = MonthTrip VehicleMonthTrip | DayTrips "VehicleDayTrip list" | NoTrips

section \<open>The rate tracker\<close>

text \<open>The field \<^verbatim>\<open>serverRates\<close> of the vehicle, lines 41-49, with its initial value.\<close>

record ServerRates =
  max' :: number
  current :: number
  reset :: "date option"
  updatedAt :: "date option"

definition serverRates_init :: ServerRates where
  "serverRates_init = \<lparr> max' = Fin (- 1), current = Fin (- 1), reset = None, updatedAt = None \<rparr>"

text \<open>A response of the HTTP client. The value of a header is a string; the client can
  leave \<^verbatim>\<open>headers\<close> itself out.\<close>

record response =
  statusCode :: js
  headers :: "(string \<rightharpoonup> string) option"
  body' :: js

text \<open>\<^verbatim>\<open>resp.headers?.[name]\<close>.\<close>

definition header :: "response \<Rightarrow> string \<Rightarrow> string option" where
  "header resp name = (case headers resp of None \<Rightarrow> None | Some hs \<Rightarrow> hs name)"

text \<open>The truth value of a header: an absent one and an empty string are both falsy.\<close>

definition truthy_header :: "string option \<Rightarrow> bool" where
  "truthy_header h = (case h of None \<Rightarrow> False | Some s \<Rightarrow> s \<noteq> [])"

text \<open>\<^verbatim>\<open>updateRates(resp)\<close>, lines 719-729, on the field \<^verbatim>\<open>serverRates\<close>; \<open>now\<close> is what
  \<^verbatim>\<open>new Date()\<close> reads from the clock. The template \<^verbatim>\<open>`${reset}000`\<close> appends three
  zeros to the text of the header.\<close>

definition updateRates :: "externals \<Rightarrow> date \<Rightarrow> response \<Rightarrow> ServerRates \<Rightarrow> ServerRates" where
  "updateRates X now resp rates =
    (if truthy_header (header resp ''x-ratelimit-limit'') then
       let rates1 = rates\<lparr> max' := Number_js X (header resp ''x-ratelimit-limit'') \<rparr>;
           rates2 = rates1\<lparr> current := Number_js X (header resp ''x-ratelimit-remaining'') \<rparr>;
           rates3 =
             (case header resp ''x-ratelimit-reset'' of
                None \<Rightarrow> rates2
              | Some r \<Rightarrow>
                  if r \<noteq> []
                  then rates2\<lparr> reset := Some (Date (TimeClip (Number_js X (Some (r @ ''000''))))) \<rparr>
                  else rates2)
       in rates3\<lparr> updatedAt := Some now \<rparr>
     else rates)"

text \<open>Milliseconds since 1970-01-01T00:00:00Z of a calendar time in UTC (proleptic Gregorian
  calendar), to name a \<^verbatim>\<open>Date\<close> by its ISO text.\<close>

definition days_from_civil :: "int \<Rightarrow> int \<Rightarrow> int \<Rightarrow> int" where
  "days_from_civil y m d =
    (let y1 = (if m \<le> 2 then y - 1 else y);
         era = y1 div 400;
         yoe = y1 - era * 400;
         doy = (153 * ((m + 9) mod 12) + 2) div 5 + d - 1;
         doe = yoe * 365 + yoe div 4 - yoe div 100 + doy
     in era * 146097 + doe - 719468)"

definition utc_ms :: "int \<Rightarrow> int \<Rightarrow> int \<Rightarrow> int \<Rightarrow> int \<Rightarrow> int \<Rightarrow> int" where
  "utc_ms y m d hh mm ss = ((days_from_civil y m d * 24 + hh) * 60 + mm) * 60000 + ss * 1000"

section \<open>The status request\<close>

text \<open>The vehicle keeps its rate state and the last status it returned (\<^verbatim>\<open>_status\<close>).\<close>

datatype status_value = Parsed VehicleStatus | Raw js

record vehicle =
  serverRates :: ServerRates
  last_status :: "status_value option"

text \<open>Lines 235-240: the range is derived from the two partial ranges when it is falsy and
  one of them is truthy.\<close>

definition derive_range :: "externals \<Rightarrow> VehicleStatus \<Rightarrow> er + VehicleStatus" where
  "derive_range X parsedStatus =
    (if \<not> truthy (range' (engine parsedStatus)) then
       if truthy (rangeEV (engine parsedStatus)) \<or> truthy (rangeGas (engine parsedStatus)) then
         bindE (js_plus X (nullish_or (rangeEV (engine parsedStatus)) (Num (Fin 0)))
                          (nullish_or (rangeGas (engine parsedStatus)) (Num (Fin 0))))
           (\<lambda>total. Inr (parsedStatus\<lparr> engine := (engine parsedStatus)\<lparr> range' := total \<rparr> \<rparr>))
       else Inr parsedStatus
     else Inr parsedStatus)"

text \<open>The \<^verbatim>\<open>try\<close> block of \<^verbatim>\<open>status(input)\<close>, lines 225-244, from the response of the
  request on: \<open>ccs2\<close> is \<^verbatim>\<open>vehicleConfig.ccuCCS2ProtocolSupport\<close> and \<open>parsed\<close> is
  \<^verbatim>\<open>statusConfig.parsed\<close>. The payload is mapped, and its range derived, also when the raw
  payload is what is returned.\<close>

definition status_try :: "externals \<Rightarrow> bool \<Rightarrow> bool \<Rightarrow> response \<Rightarrow> er + status_value" where
  "status_try X ccs2 parsed resp =
    bindE (dot (body' resp) ''resMsg'') (\<lambda>payload.
    if nullish payload then Inl (Error ''missing vehicle status in response'')
    else
    bindE (if ccs2 then parseCCS2VehicleStatus X payload else parseVehicleStatus X payload)
      (\<lambda>parsedStatus0.
    bindE (derive_range X parsedStatus0) (\<lambda>parsedStatus.
    Inr (if parsed then Parsed parsedStatus else Raw payload))))"

text \<open>\<^verbatim>\<open>status(input)\<close>, lines 210-248, from the response on: the rates are updated first,
  an exception of the block is handed to \<^verbatim>\<open>manageBluelinkyError\<close>, and the result is kept
  in \<^verbatim>\<open>_status\<close>.\<close>

definition status ::
  "externals \<Rightarrow> bool \<Rightarrow> bool \<Rightarrow> date \<Rightarrow> response \<Rightarrow> vehicle \<Rightarrow> (er + status_value) \<times> vehicle" where
  "status X ccs2 parsed now resp v =
    (let v1 = v\<lparr> serverRates := updateRates X now resp (serverRates v) \<rparr>
     in case status_try X ccs2 parsed resp of
          Inl e \<Rightarrow> (Inl (manageBluelinkyError X e ''AustraliaVehicle.status''), v1)
        | Inr s \<Rightarrow> (Inr s, v1\<lparr> last_status := Some s \<rparr>))"

section \<open>The trip request\<close>

text \<open>\<^verbatim>\<open>xs.map(f)\<close> with a callback that can throw: the first exception ends the map.\<close>

fun mapE :: "('a \<Rightarrow> er + 'b) \<Rightarrow> 'a list \<Rightarrow> er + 'b list" where
  "mapE f [] = Inr []"
| "mapE f (x # xs) = bindE (f x) (\<lambda>y. bindE (mapE f xs) (\<lambda>ys. Inr (y # ys)))"

text \<open>The text of a value inside a template literal.\<close>

fun ToString_js :: "externals \<Rightarrow> js \<Rightarrow> er + string" where
  "ToString_js X (Str s) = Inr s"
| "ToString_js X Undefined = Inr ''undefined''"
| "ToString_js X Null = Inr ''null''"
| "ToString_js X (Bool b) = Inr (if b then ''true'' else ''false'')"
| "ToString_js X v = ToString_other X v"

text \<open>\<^verbatim>\<open>perDay = Boolean(date.day)\<close>, line 524; \<open>day\<close> is \<^verbatim>\<open>date.day\<close>, none when the
  date has no day or no date is passed.\<close>

definition perDay :: "number option \<Rightarrow> bool" where
  "perDay day = (case day of None \<Rightarrow> False | Some n \<Rightarrow> truthy (Num n))"

text \<open>The callback of lines 540-544, one day of a month.\<close>

definition month_day :: "externals \<Rightarrow> js \<Rightarrow> er + MonthDay" where
  "month_day X day =
    bindE (dot day ''tripDayInMonth'') (\<lambda>raw.
    bindE (if truthy raw then bindE (parseDate X raw) (\<lambda>d. Inr (Some d)) else Inr None)
      (\<lambda>parsed.
    Inr \<lparr> MonthDay.dayRaw = raw, date = parsed,
          MonthDay.tripsCount = lookup day ''tripCntDay'' \<rparr>))"

text \<open>The callback of lines 572-588, one trip of a day; \<open>day\<close> is not \<^verbatim>\<open>undefined\<close> or
  \<^verbatim>\<open>null\<close> here, since \<^verbatim>\<open>day.tripDay\<close> has been read before.\<close>

definition day_trip :: "externals \<Rightarrow> js \<Rightarrow> js \<Rightarrow> er + Trip" where
  "day_trip X day trip =
    bindE (ToString_js X (lookup day ''tripDay'')) (\<lambda>dayText.
    bindE (dot trip ''tripTime'') (\<lambda>tripTime.
    bindE (ToString_js X tripTime) (\<lambda>timeText.
    bindE (parseDate X (Str (dayText @ timeText))) (\<lambda>start0.
    bindE (addMinutes X start0 (lookup trip ''tripDrvTime'')) (\<lambda>end0.
    Inr \<lparr> timeRaw = tripTime, start = start0, end' = end0,
          Trip.durations =
            \<lparr> drive = lookup trip ''tripDrvTime'', idle = lookup trip ''tripIdleTime'' \<rparr>,
          Trip.speed =
            \<lparr> avg = lookup trip ''tripAvgSpeed'', Speed.max' = lookup trip ''tripMaxSpeed'' \<rparr>,
          Trip.distance = lookup trip ''tripDist'' \<rparr>)))))"

text \<open>The callback of lines 559-590, one day with its trips.\<close>

definition day_trips :: "externals \<Rightarrow> js \<Rightarrow> er + VehicleDayTrip" where
  "day_trips X day =
    bindE (dot day ''tripDay'') (\<lambda>raw.
    bindE (case lookup day ''tripList'' of Arr ts \<Rightarrow> mapE (day_trip X day) ts | _ \<Rightarrow> Inr [])
      (\<lambda>trips0.
    Inr \<lparr> dayRaw = raw, tripsCount = lookup day ''dayTripCnt'', distance = lookup day ''tripDist'',
          durations = \<lparr> drive = lookup day ''tripDrvTime'', idle = lookup day ''tripIdleTime'' \<rparr>,
          speed = \<lparr> avg = lookup day ''tripAvgSpeed'', Speed.max' = lookup day ''tripMaxSpeed'' \<rparr>,
          trips = trips0 \<rparr>))"

text \<open>The \<^verbatim>\<open>try\<close> block of \<^verbatim>\<open>tripInfo(date)\<close>, lines 536-593, from the response of the
  request on.\<close>

definition tripInfo_try :: "externals \<Rightarrow> number option \<Rightarrow> response \<Rightarrow> er + trip_result" where
  "tripInfo_try X day resp =
    (if \<not> perDay day then
       bindE (dot (body' resp) ''resMsg'') (\<lambda>rawData.
       bindE (case qdot rawData ''tripDayList'' of Arr ds \<Rightarrow> mapE (month_day X) ds | _ \<Rightarrow> Inr [])
         (\<lambda>days0.
       Inr (MonthTrip \<lparr>
         days = days0,
         VehicleMonthTrip.durations =
           \<lparr> drive = qdot rawData ''tripDrvTime'', idle = qdot rawData ''tripIdleTime'' \<rparr>,
         VehicleMonthTrip.distance = qdot rawData ''tripDist'',
         VehicleMonthTrip.speed =
           \<lparr> avg = qdot rawData ''tripAvgSpeed'', Speed.max' = qdot rawData ''tripMaxSpeed'' \<rparr> \<rparr>)))
     else
       bindE (dot (body' resp) ''resMsg'') (\<lambda>resMsg.
       bindE (dot resMsg ''dayTripList'') (\<lambda>rawData.
       case rawData of
         Arr ds \<Rightarrow> bindE (mapE (day_trips X) ds) (\<lambda>result. Inr (DayTrips result))
       | _ \<Rightarrow> Inr NoTrips)))"

text \<open>\<^verbatim>\<open>tripInfo(date)\<close>, lines 516-597, from the response on: the rates are updated first
  and an exception of the block is handed to \<^verbatim>\<open>manageBluelinkyError\<close>.\<close>

definition tripInfo ::
  "externals \<Rightarrow> number option \<Rightarrow> date \<Rightarrow> response \<Rightarrow> ServerRates \<Rightarrow> (er + trip_result) \<times> ServerRates" where
  "tripInfo X day now resp rates =
    (let rates1 = updateRates X now resp rates
     in case tripInfo_try X day resp of
          Inl e \<Rightarrow> (Inl (manageBluelinkyError X e ''AustraliaVehicle.history''), rates1)
        | Inr result \<Rightarrow> (Inr result, rates1))"

section \<open>The charge targets\<close>

datatype EVChargeModeTypes = FAST | SLOW

record targetSOC =
  plugType :: EVChargeModeTypes
  targetSOClevel :: int

text \<open>The one request that \<^verbatim>\<open>setChargeTargets\<close> posts: its path and the
  \<^verbatim>\<open>targetSOClist\<close> of its body.\<close>

record charge_request =
  url :: string
  targetSOClist :: "targetSOC list"

text \<open>The decimal text of an integer, which is how \<^verbatim>\<open>join\<close> writes a number (below
  \<open>10\<^sup>2\<^sup>1\<close> in absolute value).\<close>

fun digits_of :: "nat \<Rightarrow> string" where
  "digits_of n =
     (if n < 10 then [char_of (48 + n)] else digits_of (n div 10) @ [char_of (48 + n mod 10)])"

definition text_of_int :: "int \<Rightarrow> string" where
  "text_of_int i = (if i < 0 then CHR ''-'' # digits_of (nat (- i)) else digits_of (nat i))"

text \<open>\<^verbatim>\<open>xs.join(sep)\<close>.\<close>

fun join :: "string \<Rightarrow> string list \<Rightarrow> string" where
  "join sep [] = []"
| "join sep [x] = x"
| "join sep (x # y # ys) = x @ sep @ join sep (y # ys)"

text \<open>\<^verbatim>\<open>setChargeTargets(limits)\<close>, lines 671-696. \<open>service\<close> is the outcome of
  \<^verbatim>\<open>await this.getVehicleHttpService()\<close>: an exception, or the client, whose \<^verbatim>\<open>post\<close>
  answers a request with an exception or a response. Next to its result the function returns
  the requests it has posted, in order, and the rate state.\<close>

definition setChargeTargets ::
  "externals \<Rightarrow> er + (charge_request \<Rightarrow> er + response) \<Rightarrow> string \<Rightarrow> date \<Rightarrow> int \<Rightarrow> int \<Rightarrow>
     ServerRates \<Rightarrow> (er + unit) \<times> charge_request list \<times> ServerRates" where
  "setChargeTargets X service vehicleId now fast slow rates =
    (case service of
       Inl e \<Rightarrow> (Inl e, [], rates)
     | Inr post \<Rightarrow>
         if \<not> fast \<in> set (POSSIBLE_CHARGE_LIMIT_VALUES X)
            \<or> \<not> slow \<in> set (POSSIBLE_CHARGE_LIMIT_VALUES X)
         then (Inl (ManagedBluelinkyError (''Charge target values are limited to ''
                  @ join '', '' (map text_of_int (POSSIBLE_CHARGE_LIMIT_VALUES X)))), [], rates)
         else
           (let request = \<lparr>
                  url = ''/api/v2/spa/vehicles/'' @ vehicleId @ ''/charge/target'',
                  targetSOClist = [\<lparr> plugType = FAST, targetSOClevel = fast \<rparr>,
                                   \<lparr> plugType = SLOW, targetSOClevel = slow \<rparr>] \<rparr>
            in case post request of
                 Inl e \<Rightarrow>
                   (Inl (manageBluelinkyError X e ''AustraliaVehicle.setChargeTargets''),
                    [request], rates)
               | Inr resp \<Rightarrow> (Inr (), [request], updateRates X now resp rates)))"

section \<open>Temperature codes\<close>

text \<open>Modelled from the spec: \<^verbatim>\<open>celciusToTempCode\<close> and \<^verbatim>\<open>tempCodeToCelsius\<close> are
  imported from \<^verbatim>\<open>../util\<close>, which is not in this file. The spec describes a table keyed by
  region that maps a vendor temperature code to Celsius by an offset/step encoding, with
  \<^verbatim>\<open>codeToCelsius(region, code)\<close> and its inverse \<^verbatim>\<open>celsiusToCode(region, celsius)\<close>. A
  region's entry is the Celsius value of code 0, the step between two codes and the number
  of codes; the table itself is a parameter.\<close>

record temperature_range =
  offset :: rat
  step :: rat
  codes :: nat

definition codeToCelsius :: "('r \<Rightarrow> temperature_range) \<Rightarrow> 'r \<Rightarrow> nat \<Rightarrow> rat option" where
  "codeToCelsius table region code =
     (let t = table region
      in if code < codes t then Some (offset t + of_nat code * step t) else None)"

definition celsiusToCode :: "('r \<Rightarrow> temperature_range) \<Rightarrow> 'r \<Rightarrow> rat \<Rightarrow> nat option" where
  "celsiusToCode table region celsius =
     (let t = table region; q = (celsius - offset t) / step t
      in if step t \<noteq> 0 \<and> 0 \<le> q \<and> q < of_nat (codes t) \<and> of_int \<lfloor>q\<rfloor> = q
         then Some (nat \<lfloor>q\<rfloor>) else None)"

definition celsius_domain :: "('r \<Rightarrow> temperature_range) \<Rightarrow> 'r \<Rightarrow> rat set" where
  "celsius_domain table region =
     (\<lambda>code. offset (table region) + of_nat code * step (table region)) ` {..<codes (table region)}"

section \<open>Concrete inputs\<close>

text \<open>Stand-ins for the imported helpers and for the uncomputed part of the built-ins. The
  theorems below hold for every choice of them; the stand-ins only serve to evaluate the
  definitions at concrete payloads.\<close>

definition parseDate_stand_in :: "js \<Rightarrow> er + date" where
  "parseDate_stand_in v =
     (case v of
        Str s \<Rightarrow>
          if list_all digit s \<and> length s = 14
          then Inr (Date (Some (utc_ms
                 (int (decimal (take 4 s))) (int (decimal (take 2 (drop 4 s))))
                 (int (decimal (take 2 (drop 6 s)))) (int (decimal (take 2 (drop 8 s))))
                 (int (decimal (take 2 (drop 10 s)))) (int (decimal (take 2 (drop 12 s)))))))
          else Inr (Date None)
      | _ \<Rightarrow> Inr (Date None))"

text \<open>Modelled from the spec: \<^verbatim>\<open>addMinutes\<close> of \<^verbatim>\<open>../util\<close> is not in this file; the
  spec describes it as minute-offset arithmetic, adding the drive duration in minutes to a
  timestamp.\<close>

definition addMinutes_spec :: "date \<Rightarrow> js \<Rightarrow> er + date" where
  "addMinutes_spec d minutes =
     (case (d, minutes) of
        (Date (Some t), Num (Fin m)) \<Rightarrow> Inr (Date (TimeClip (Fin (of_int t + m * 60000))))
      | _ \<Rightarrow> Inr (Date None))"

definition stand_in :: externals where
  "stand_in = \<lparr>
     tempCodeToCelsius = (\<lambda>code. Inr Undefined),
     parseDate = parseDate_stand_in,
     addMinutes = addMinutes_spec,
     manageBluelinkyError = (\<lambda>e ctx. e),
     UNPLUGED = Num (Fin 0),
     POSSIBLE_CHARGE_LIMIT_VALUES = [50, 60, 70, 80, 90, 100],
     add_rounded = (\<lambda>a b. Fin (a + b)),
     Number_other = (\<lambda>s. NaN),
     Date_parse = (\<lambda>s. Date None),
     Date_object = (\<lambda>v. Inr (Date None)),
     gt0_object = (\<lambda>v. Inr False),
     plus_other = (\<lambda>a b. Inr Undefined),
     ToString_other = (\<lambda>v. Inr [])
   \<rparr>"

definition ccs2_example :: js where
  "ccs2_example = Obj [
     (''lastUpdateTime'', Num (Fin 1700000000000)),
     (''state'', Obj [(''Vehicle'', Obj [
        (''Cabin'', Obj [(''Door'', Obj [
           (''Row1'', Obj [
              (''Driver'', Obj [(''Lock'', Num (Fin 1)), (''Open'', Num (Fin 0))]),
              (''Passenger'', Obj [(''Lock'', Num (Fin 1)), (''Open'', Num (Fin 0))])]),
           (''Row2'', Obj [
              (''Left'', Obj [(''Lock'', Num (Fin 1)), (''Open'', Num (Fin 0))]),
              (''Right'', Obj [(''Lock'', Num (Fin 1)), (''Open'', Num (Fin 0))])])])]),
        (''Chassis'', Obj [(''Axle'', Obj [
           (''Row1'', Obj [
              (''Left'', Obj [(''Tire'', Obj [(''PressureLow'', Num (Fin 2))])]),
              (''Right'', Obj [(''Tire'', Obj [(''PressureLow'', Num (Fin 1))])])]),
           (''Tire'', Obj [(''PressureLow'', Num (Fin 1))])])]),
        (''Drivetrain'', Obj [(''FuelSystem'', Obj [(''DTE'', Obj [(''Total'', Num (Fin 350))])])])])])]"


definition legacy_example :: js where
  "legacy_example = Obj [
     (''airTemp'', Obj [(''value'', Str ''0AH''), (''unit'', Num (Fin 0))]),
     (''doorLock'', Bool True),
     (''tirePressureLamp'', Obj [
        (''tirePressureLampRL'', Num (Fin 2)),
        (''tirePressureWarningLampAll'', Num (Fin 0))]),
     (''evStatus'', Obj [
        (''batteryCharge'', Bool False),
        (''drvDistance'', Arr [Obj [(''rangeByFuel'', Obj [
           (''evModeRange'', Obj [(''value'', Num (Fin 120))]),
           (''gasModeRange'', Obj [(''value'', Num (Fin 80))])])]])])]"






text \<open>A legacy payload with \<^verbatim>\<open>evStatus\<close> but without \<^verbatim>\<open>evStatus.drvDistance\<close>.\<close>

definition legacy_no_drvDistance :: js where
  "legacy_no_drvDistance = Obj [
     (''airTemp'', Obj [(''value'', Str ''0AH''), (''unit'', Num (Fin 0))]),
     (''evStatus'', Obj [(''batteryCharge'', Bool False), (''batteryStatus'', Num (Fin 80))])]"

text \<open>A CCS2 payload whose \<^verbatim>\<open>state\<close> has no \<^verbatim>\<open>Vehicle\<close>.\<close>

definition ccs2_no_Vehicle :: js where
  "ccs2_no_Vehicle = Obj [(''lastUpdateTime'', Num (Fin 1700000000000)), (''state'', Obj [])]"





text \<open>A client whose \<^verbatim>\<open>post\<close> answers every request with an empty 200.\<close>

definition post_ok :: "charge_request \<Rightarrow> er + response" where
  "post_ok request = Inr \<lparr> statusCode = Num (Fin 200), headers = None, body' = Undefined \<rparr>"

text \<open>Responses of the trip request: one day with one trip of 25 minutes; a month with two
  days; and a response without \<^verbatim>\<open>dayTripList\<close>.\<close>

definition day_trip_response :: response where
  "day_trip_response =
     \<lparr> statusCode = Num (Fin 200), headers = None,
       body' = Obj [(''resMsg'', Obj [(''dayTripList'', Arr [Obj [
          (''tripDay'', Str ''20240115''),
          (''dayTripCnt'', Num (Fin 1)),
          (''tripList'', Arr [Obj [
             (''tripTime'', Str ''083000''),
             (''tripDrvTime'', Num (Fin 25)),
             (''tripIdleTime'', Num (Fin 3)),
             (''tripDist'', Num (Fin 18)),
             (''tripAvgSpeed'', Num (Fin 43)),
             (''tripMaxSpeed'', Num (Fin 92))]])]])])] \<rparr>"

definition month_trip_response :: response where
  "month_trip_response =
     \<lparr> statusCode = Num (Fin 200), headers = None,
       body' = Obj [(''resMsg'', Obj [
          (''tripDayList'', Arr [
             Obj [(''tripDayInMonth'', Str ''20240115''), (''tripCntDay'', Num (Fin 1))],
             Obj [(''tripDayInMonth'', Str ''20240116''), (''tripCntDay'', Num (Fin 2))]]),
          (''tripAvgSpeed'', Num (Fin 43)),
          (''tripMaxSpeed'', Num (Fin 92))])] \<rparr>"

definition no_trip_list_response :: response where
  "no_trip_list_response =
     \<lparr> statusCode = Num (Fin 200), headers = None, body' = Obj [(''resMsg'', Obj [])] \<rparr>"

text \<open>A temperature table with one entry for every region: from 17 to 27 degrees in steps of
  one half.\<close>

definition example_table :: "string \<Rightarrow> temperature_range" where
  "example_table region = \<lparr> offset = 17, step = 1 / 2, codes = 21 \<rparr>"

section \<open>Reading payloads\<close>

lemma bindE_Inr_iff: "bindE m f = Inr y \<longleftrightarrow> (\<exists>v. m = Inr v \<and> f v = Inr y)"
  by (cases m) (simp_all add: bindE_def)

lemma dot_Inr_iff: "dot v k = Inr x \<longleftrightarrow> (\<not> nullish v \<and> x = lookup v k)"
  by (auto simp: dot_def)

lemma qpath_Nil: "qpath v [] = v"
  by (simp add: qpath_def)

lemma qpath_Cons: "qpath v (k # ks) = qpath (qdot v k) ks"
  by (simp add: qpath_def)

lemma qpath_append: "qpath (qpath v ks) ls = qpath v (ks @ ls)"
  by (simp add: qpath_def)

lemma qdot_lookup: "\<not> nullish v \<Longrightarrow> qdot v k = lookup v k"
  by (simp add: qdot_def)

lemma truthy_not_nullish: "truthy v \<Longrightarrow> \<not> nullish v"
  by (auto simp: nullish_def)

lemma parseCCS2_Inr:
  assumes "parseCCS2VehicleStatus X body = Inr st"
  shows "\<exists>remaining updated.
    \<not> nullish body \<and>
    truthy (qpath body [''state'', ''Vehicle'']) \<and>
    truthy (qpath body [''state'', ''Vehicle'', ''Chassis'', ''Axle'']) \<and>
    truthy (qpath body [''state'', ''Vehicle'', ''Cabin'', ''Door'']) \<and>
    st = ccs2_literal X (qpath body [''state'', ''Vehicle''])
           (qpath body [''state'', ''Vehicle'', ''Chassis'', ''Axle''])
           (qpath body [''state'', ''Vehicle'', ''Cabin'', ''Door''])
           (qpath body [''state'', ''Vehicle'', ''Green'', ''ChargingInformation''])
           remaining updated"
  using assms
  unfolding parseCCS2VehicleStatus_def Let_def
  by (auto simp: bindE_Inr_iff dot_Inr_iff qpath_Cons qpath_Nil qdot_lookup split: if_splits)

text \<open>The CCS2 mapping returns a status as soon as the payload passes the test of line 305
  and the two conversions of the literal do not throw.\<close>

lemma parseCCS2_returns:
  assumes "\<not> nullish body"
    and "truthy (qpath body [''state'', ''Vehicle''])"
    and "truthy (qpath body [''state'', ''Vehicle'', ''Chassis'', ''Axle''])"
    and "truthy (qpath body [''state'', ''Vehicle'', ''Cabin'', ''Door''])"
    and "gt0 X (qpath body [''state'', ''Vehicle'', ''Green'', ''ChargingInformation'', ''Charging'',
           ''RemainTime'']) = Inr remaining"
    and "newDate X (lookup body ''lastUpdateTime'') = Inr updated"
  shows "parseCCS2VehicleStatus X body =
     Inr (ccs2_literal X (qpath body [''state'', ''Vehicle''])
           (qpath body [''state'', ''Vehicle'', ''Chassis'', ''Axle''])
           (qpath body [''state'', ''Vehicle'', ''Cabin'', ''Door''])
           (qpath body [''state'', ''Vehicle'', ''Green'', ''ChargingInformation''])
           remaining updated)"
proof -
  have v: "\<not> nullish (qdot (lookup body ''state'') ''Vehicle'')"
    using assms(1,2) by (auto simp: qpath_Cons qpath_Nil qdot_lookup dest: truthy_not_nullish)
  show ?thesis
    using assms v
    unfolding parseCCS2VehicleStatus_def Let_def
    by (simp add: bindE_def dot_def qpath_Cons qpath_Nil qdot_lookup)
qed

lemma ccs2_example_parses:
  "\<exists>st. parseCCS2VehicleStatus stand_in ccs2_example = Inr st"
  by (simp add: parseCCS2VehicleStatus_def ccs2_example_def stand_in_def bindE_def dot_def qdot_def
      nullish_def qpath_def Let_def)



lemma parseVehicleStatus_Inr:
  assumes "parseVehicleStatus X body = Inr st"
  shows "\<exists>setpoint d0 updated.
    \<not> nullish body \<and> drvDistance0 body = Inr d0 \<and>
    st = legacy_literal X body setpoint d0 updated"
  using assms
  unfolding parseVehicleStatus_def
  by (auto simp: bindE_Inr_iff dot_Inr_iff)

text \<open>The legacy mapping returns a status when the payload is an object, the two helpers
  return and the index on \<^verbatim>\<open>drvDistance\<close> does not throw (here for a payload without
  \<^verbatim>\<open>time\<close>).\<close>

lemma parseVehicleStatus_returns:
  assumes "\<not> nullish body"
    and "tempCodeToCelsius X (qdot (lookup body ''airTemp'') ''value'') = Inr setpoint"
    and "drvDistance0 body = Inr d0"
    and "\<not> truthy (lookup body ''time'')"
  shows "parseVehicleStatus X body = Inr (legacy_literal X body setpoint d0 None)"
  using assms unfolding parseVehicleStatus_def
  by (simp add: bindE_def dot_def)

lemma legacy_example_parses:
  "\<exists>st. parseVehicleStatus stand_in legacy_example = Inr st"
  by (simp add: parseVehicleStatus_def legacy_example_def stand_in_def bindE_def dot_def qdot_def
      nullish_def drvDistance0_def Let_def)



















lemma mapE_Inr_length: "mapE f xs = Inr ys \<Longrightarrow> length ys = length xs"
  by (induction xs arbitrary: ys) (auto simp: bindE_Inr_iff)

lemma mapE_Inr_set: "mapE f xs = Inr ys \<Longrightarrow> y \<in> set ys \<Longrightarrow> \<exists>x \<in> set xs. f x = Inr y"
  by (induction xs arbitrary: ys) (auto simp: bindE_Inr_iff)

lemma day_trip_end:
  assumes "day_trip X day trip = Inr t"
  shows "addMinutes X (start t) (drive (Trip.durations t)) = Inr (end' t)"
  using assms unfolding day_trip_def
  by (auto simp: bindE_Inr_iff)

lemma day_trips_end:
  assumes "day_trips X day = Inr d" and "t \<in> set (trips d)"
  shows "addMinutes X (start t) (drive (Trip.durations t)) = Inr (end' t)"
proof -
  from assms(1) obtain ts where
    m: "(case lookup day ''tripList'' of Arr ts \<Rightarrow> mapE (day_trip X day) ts | _ \<Rightarrow> Inr []) = Inr ts"
    and d: "trips d = ts"
    unfolding day_trips_def by (auto simp: bindE_Inr_iff)
  show ?thesis
  proof (cases "lookup day ''tripList''")
    case (Arr raw)
    with m have "mapE (day_trip X day) raw = Inr ts" by simp
    from mapE_Inr_set [OF this] assms(2) d obtain trip where "day_trip X day trip = Inr t"
      by blast
    then show ?thesis by (rule day_trip_end)
  qed (use m d assms(2) in auto)
qed

lemma tripInfo_Inr:
  assumes "tripInfo X day now resp rates = (Inr result, rates')"
  shows "tripInfo_try X day resp = Inr result"
  using assms unfolding tripInfo_def Let_def by (auto split: sum.splits)

lemma day_trip_response_result:
  "\<exists>d t. tripInfo stand_in (Some (Fin 15)) (Date (Some 0)) day_trip_response serverRates_init
            = (Inr (DayTrips [d]), serverRates_init)
     \<and> trips d = [t]
     \<and> start t = Date (Some (utc_ms 2024 1 15 8 30 0))
     \<and> drive (Trip.durations t) = Num (Fin 25)"
  by (simp add: tripInfo_def tripInfo_try_def perDay_def day_trip_response_def updateRates_def
      header_def truthy_header_def bindE_def dot_def nullish_def day_trips_def day_trip_def
      stand_in_def parseDate_stand_in_def addMinutes_spec_def digit_def decimal_def Let_def)

lemma month_trip_response_result:
  "\<exists>m. tripInfo stand_in None (Date (Some 0)) month_trip_response serverRates_init
            = (Inr (MonthTrip m), serverRates_init)"
  by (simp add: tripInfo_def tripInfo_try_def perDay_def month_trip_response_def updateRates_def
      header_def truthy_header_def bindE_def dot_def qdot_def nullish_def month_day_def
      stand_in_def parseDate_stand_in_def Let_def)

lemma mapE_Inr_list_all2: "mapE f xs = Inr ys \<Longrightarrow> list_all2 (\<lambda>x y. f x = Inr y) xs ys"
  by (induction xs arbitrary: ys) (auto simp: bindE_Inr_iff)

lemma day_trip_drive:
  assumes "day_trip X day trip = Inr t"
  shows "drive (Trip.durations t) = lookup trip ''tripDrvTime''"
  using assms unfolding day_trip_def
  by (auto simp: bindE_Inr_iff)

lemma day_trips_drive:
  assumes "day_trips X day = Inr d"
  shows "list_all2 (\<lambda>trip t. drive (Trip.durations t) = lookup trip ''tripDrvTime'')
           (case lookup day ''tripList'' of Arr ts \<Rightarrow> ts | _ \<Rightarrow> []) (trips d)"
proof -
  from assms obtain ts where
    m: "(case lookup day ''tripList'' of Arr ts \<Rightarrow> mapE (day_trip X day) ts | _ \<Rightarrow> Inr []) = Inr ts"
    and d: "trips d = ts"
    unfolding day_trips_def by (auto simp: bindE_Inr_iff)
  show ?thesis
  proof (cases "lookup day ''tripList''")
    case (Arr raw)
    with m have "mapE (day_trip X day) raw = Inr ts" by simp
    from mapE_Inr_list_all2 [OF this]
    have "list_all2 (\<lambda>trip t. drive (Trip.durations t) = lookup trip ''tripDrvTime'') raw ts"
      by (rule list_all2_mono) (rule day_trip_drive)
    with Arr d show ?thesis by simp
  qed (use m d in auto)
qed

lemma TimeClip_of_int:
  assumes "\<bar>k\<bar> \<le> 8640000000000000"
  shows "TimeClip (Fin (of_int k)) = Some k"
proof -
  from assms have "of_int \<bar>k\<bar> \<le> (of_int 8640000000000000 :: rat)"
    by (simp only: of_int_le_iff)
  then have "\<bar>of_int k :: rat\<bar> \<le> 8640000000000000"
    by simp
  then show ?thesis
    by (simp only: TimeClip.simps if_True floor_of_int ceiling_of_int if_cancel)
qed

lemma addMinutes_spec_integer:
  assumes "\<bar>s + 60000 * m\<bar> \<le> 8640000000000000"
  shows "addMinutes_spec (Date (Some s)) (Num (Fin (of_int m))) = Inr (Date (Some (s + 60000 * m)))"
proof -
  have e: "(of_int s :: rat) + of_int m * 60000 = of_int (s + 60000 * m)"
    by simp
  have "addMinutes_spec (Date (Some s)) (Num (Fin (of_int m)))
          = Inr (Date (TimeClip (Fin (of_int s + of_int m * 60000))))"
    by (simp add: addMinutes_spec_def)
  also have "\<dots> = Inr (Date (TimeClip (Fin (of_int (s + 60000 * m)))))"
    by (simp only: e)
  also have "\<dots> = Inr (Date (Some (s + 60000 * m)))"
    by (simp only: TimeClip_of_int [OF assms])
  finally show ?thesis .
qed

lemma month_trip_response_day0_result:
  "\<exists>m. tripInfo stand_in (Some (Fin 0)) (Date (Some 0)) month_trip_response serverRates_init
            = (Inr (MonthTrip m), serverRates_init)"
  by (simp add: tripInfo_def tripInfo_try_def perDay_def month_trip_response_def updateRates_def
      header_def truthy_header_def bindE_def dot_def qdot_def nullish_def month_day_def
      stand_in_def parseDate_stand_in_def Let_def)

lemma celsiusToCode_of_code:
  assumes "step (table region) \<noteq> 0" and "code < codes (table region)"
  shows "celsiusToCode table region (offset (table region) + of_nat code * step (table region))
           = Some code"
  using assms unfolding celsiusToCode_def Let_def by simp

section \<open>C1: the derived range\<close>



section \<open>C2: a CCS2 payload without its load-bearing parts\<close>

text \<open>With \<^verbatim>\<open>state.Vehicle\<close> in place, a missing (or otherwise falsy) \<^verbatim>\<open>Axle\<close> or
  \<^verbatim>\<open>Door\<close> ends in the error of line 306.\<close>

lemma ccs2_missing_Axle_or_Door:
  assumes "\<not> nullish body" and "\<not> nullish (qpath body [''state'', ''Vehicle''])"
    and "\<not> truthy (qpath body [''state'', ''Vehicle'', ''Chassis'', ''Axle''])
         \<or> \<not> truthy (qpath body [''state'', ''Vehicle'', ''Cabin'', ''Door''])"
  shows "parseCCS2VehicleStatus X body =
           Inl (Error ''missing vehicle state in vehicle status response'')"
  using assms
  unfolding parseCCS2VehicleStatus_def Let_def
  by (auto simp: bindE_def dot_def qpath_Cons qpath_Nil qdot_lookup)

text \<open>Without \<^verbatim>\<open>state.Vehicle\<close> the read of line 302 throws, whatever else the payload
  holds.\<close>

lemma ccs2_missing_Vehicle:
  assumes "\<not> nullish body" and "nullish (qpath body [''state'', ''Vehicle''])"
  shows "parseCCS2VehicleStatus X body = Inl TypeError"
  using assms
  unfolding parseCCS2VehicleStatus_def Let_def
  by (simp add: bindE_def dot_def qpath_Cons qpath_Nil qdot_lookup)

text \<open>
  C2. The claim is that a CCS2 payload without \<^verbatim>\<open>state.Vehicle\<close> fails with the
  malformed-payload error, \<^verbatim>\<open>new Error('missing vehicle state in vehicle status response')\<close>.
  The code reads \<^verbatim>\<open>vehicleState.Chassis\<close> on line 302, before the test of
  \<^verbatim>\<open>vehicleState\<close> on line 305: on the payload \<^verbatim>\<open>{lastUpdateTime: ..., state: {}}\<close>
  the read throws a \<^verbatim>\<open>TypeError\<close> and the test is never reached.
\<close>

theorem ccs2_missing_Vehicle_throws_TypeError:
  "parseCCS2VehicleStatus X ccs2_no_Vehicle = Inl TypeError
   \<and> TypeError \<noteq> Error ''missing vehicle state in vehicle status response''"
  by (simp add: parseCCS2VehicleStatus_def ccs2_no_Vehicle_def bindE_def dot_def qdot_def nullish_def)

text \<open>The same evaluation with the stand-ins for the imported helpers.\<close>

theorem ccs2_missing_Vehicle_throws_TypeError_witness:
  "parseCCS2VehicleStatus stand_in ccs2_no_Vehicle = Inl TypeError"
  using ccs2_missing_Vehicle_throws_TypeError [of stand_in] by simp

section \<open>C3: a legacy payload without \<^verbatim>\<open>evStatus.drvDistance\<close>\<close>

text \<open>Every payload with \<^verbatim>\<open>evStatus\<close> and without \<^verbatim>\<open>evStatus.drvDistance\<close> makes the
  legacy mapping throw.\<close>

lemma legacy_without_drvDistance:
  assumes "\<not> nullish (lookup body ''evStatus'')"
    and "nullish (lookup (lookup body ''evStatus'') ''drvDistance'')"
  shows "\<exists>e. parseVehicleStatus X body = Inl e"
proof -
  have "drvDistance0 body = Inl TypeError"
    using assms unfolding drvDistance0_def Let_def nullish_def by auto
  then show ?thesis
    unfolding parseVehicleStatus_def
    by (auto simp: bindE_def split: sum.splits)
qed

text \<open>
  C3. The claim is that the legacy mapping never fails. On a payload with \<^verbatim>\<open>evStatus\<close>
  but without \<^verbatim>\<open>evStatus.drvDistance\<close> the chain
  \<^verbatim>\<open>body.evStatus?.drvDistance[0]?.rangeByFuel\<close> indexes \<^verbatim>\<open>undefined\<close>: the mapping
  throws, either already in \<^verbatim>\<open>tempCodeToCelsius\<close> (if that helper throws on the code) or
  with a \<^verbatim>\<open>TypeError\<close> at the index. It returns no status whatever the helpers do.
\<close>

theorem legacy_missing_drvDistance_throws:
  "parseVehicleStatus X legacy_no_drvDistance =
     (case tempCodeToCelsius X (Str ''0AH'') of Inl e \<Rightarrow> Inl e | Inr setpoint \<Rightarrow> Inl TypeError)"
  by (simp add: parseVehicleStatus_def legacy_no_drvDistance_def bindE_def dot_def qdot_def
      nullish_def drvDistance0_def Let_def split: sum.splits)

text \<open>With a \<^verbatim>\<open>tempCodeToCelsius\<close> that returns, the exception is the \<^verbatim>\<open>TypeError\<close> of
  the index.\<close>

theorem legacy_missing_drvDistance_throws_witness:
  "parseVehicleStatus stand_in legacy_no_drvDistance = Inl TypeError"
  using legacy_missing_drvDistance_throws [of stand_in] by (simp add: stand_in_def)

section \<open>C4: the rate tracker\<close>




section \<open>C5: charge targets are validated before anything is posted\<close>

text \<open>
  C5, as stated, fails when the HTTP client cannot be obtained: line 673 awaits
  \<^verbatim>\<open>getVehicleHttpService()\<close> before the values are tested, so with the invalid pair
  (55, 90) the exception of that call is thrown and not the error that lists the allowed
  values.
\<close>

theorem setChargeTargets_no_client_counterexample:
  "(55::int) \<notin> set (POSSIBLE_CHARGE_LIMIT_VALUES stand_in)
   \<and> setChargeTargets stand_in (Inl (Error ''no service'')) ''V1'' (Date (Some 0)) 55 90
        serverRates_init
      = (Inl (Error ''no service''), [], serverRates_init)
   \<and> Error ''no service'' \<noteq> ManagedBluelinkyError
        ''Charge target values are limited to 50, 60, 70, 80, 90, 100''"
  by (simp add: setChargeTargets_def stand_in_def)

text \<open>
  C5, amended. If \<^verbatim>\<open>fast\<close> or \<^verbatim>\<open>slow\<close> is not one of
  \<^verbatim>\<open>POSSIBLE_CHARGE_LIMIT_VALUES\<close>, \<^verbatim>\<open>setChargeTargets\<close> posts no request and leaves the
  rate state alone, and, once the client has been obtained, what it throws is the
  \<^verbatim>\<open>ManagedBluelinkyError\<close> whose message lists the allowed values. If both are allowed and
  the client has been obtained, it posts exactly one request, which carries the two targets
  together (\<^verbatim>\<open>FAST\<close> with \<^verbatim>\<open>fast\<close>, \<^verbatim>\<open>SLOW\<close> with \<^verbatim>\<open>slow\<close>), and it succeeds
  when that request does. If the client cannot be obtained, the exception of that call is
  thrown and nothing is posted, whatever the two values are.
\<close>

theorem setChargeTargets_validates_before_posting:
  "(fast \<notin> set (POSSIBLE_CHARGE_LIMIT_VALUES X) \<or> slow \<notin> set (POSSIBLE_CHARGE_LIMIT_VALUES X) \<longrightarrow>
      fst (snd (setChargeTargets X service vehicleId now fast slow rates)) = []
      \<and> snd (snd (setChargeTargets X service vehicleId now fast slow rates)) = rates
      \<and> (\<forall>post. service = Inr post \<longrightarrow>
            fst (setChargeTargets X service vehicleId now fast slow rates) =
              Inl (ManagedBluelinkyError (''Charge target values are limited to ''
                     @ join '', '' (map text_of_int (POSSIBLE_CHARGE_LIMIT_VALUES X))))))
   \<and> (fast \<in> set (POSSIBLE_CHARGE_LIMIT_VALUES X) \<and> slow \<in> set (POSSIBLE_CHARGE_LIMIT_VALUES X) \<longrightarrow>
        (\<forall>post. service = Inr post \<longrightarrow>
            fst (snd (setChargeTargets X service vehicleId now fast slow rates)) =
              [\<lparr> url = ''/api/v2/spa/vehicles/'' @ vehicleId @ ''/charge/target'',
                 targetSOClist = [\<lparr> plugType = FAST, targetSOClevel = fast \<rparr>,
                                  \<lparr> plugType = SLOW, targetSOClevel = slow \<rparr>] \<rparr>]
            \<and> (\<forall>resp. post \<lparr> url = ''/api/v2/spa/vehicles/'' @ vehicleId @ ''/charge/target'',
                 targetSOClist = [\<lparr> plugType = FAST, targetSOClevel = fast \<rparr>,
                                  \<lparr> plugType = SLOW, targetSOClevel = slow \<rparr>] \<rparr> = Inr resp \<longrightarrow>
                  fst (setChargeTargets X service vehicleId now fast slow rates) = Inr ())))
   \<and> (\<forall>e. service = Inl e \<longrightarrow>
         setChargeTargets X service vehicleId now fast slow rates = (Inl e, [], rates))"
  unfolding setChargeTargets_def Let_def
  by (auto split: sum.splits)

text \<open>With the allowed values 50, 60, 70, 80, 90 and 100: the targets (55, 90) are refused
  with a message that lists them and nothing is posted; the targets (50, 90) are posted in one
  request.\<close>

theorem setChargeTargets_validates_before_posting_witness:
  "setChargeTargets stand_in (Inr post_ok) ''V1'' (Date (Some 0)) 55 90 serverRates_init =
     (Inl (ManagedBluelinkyError ''Charge target values are limited to 50, 60, 70, 80, 90, 100''),
      [], serverRates_init)
   \<and> fst (setChargeTargets stand_in (Inr post_ok) ''V1'' (Date (Some 0)) 50 90 serverRates_init)
       = Inr ()
   \<and> fst (snd (setChargeTargets stand_in (Inr post_ok) ''V1'' (Date (Some 0)) 50 90 serverRates_init))
       = [\<lparr> url = ''/api/v2/spa/vehicles/V1/charge/target'',
            targetSOClist = [\<lparr> plugType = FAST, targetSOClevel = 50 \<rparr>,
                             \<lparr> plugType = SLOW, targetSOClevel = 90 \<rparr>] \<rparr>]"
proof -
  have P: "POSSIBLE_CHARGE_LIMIT_VALUES stand_in = [50, 60, 70, 80, 90, 100]"
    by (simp add: stand_in_def)
  have msg: "''Charge target values are limited to ''
       @ join '', '' (map text_of_int (POSSIBLE_CHARGE_LIMIT_VALUES stand_in))
     = ''Charge target values are limited to 50, 60, 70, 80, 90, 100''"
    unfolding P by code_simp
  have bad: "(55::int) \<notin> set (POSSIBLE_CHARGE_LIMIT_VALUES stand_in)
       \<or> (90::int) \<notin> set (POSSIBLE_CHARGE_LIMIT_VALUES stand_in)"
    unfolding P by simp
  have good: "(50::int) \<in> set (POSSIBLE_CHARGE_LIMIT_VALUES stand_in)
       \<and> (90::int) \<in> set (POSSIBLE_CHARGE_LIMIT_VALUES stand_in)"
    unfolding P by simp
  have ok: "post_ok \<lparr> url = ''/api/v2/spa/vehicles/'' @ ''V1'' @ ''/charge/target'',
                 targetSOClist = [\<lparr> plugType = FAST, targetSOClevel = 50 \<rparr>,
                                  \<lparr> plugType = SLOW, targetSOClevel = 90 \<rparr>] \<rparr>
        = Inr \<lparr> statusCode = Num (Fin 200), headers = None, body' = Undefined \<rparr>"
    by (simp add: post_ok_def)
  note t1 = setChargeTargets_validates_before_posting
    [of 55 stand_in 90 "Inr post_ok" "''V1''" "Date (Some 0)" serverRates_init,
     THEN conjunct1, rule_format, OF bad]
  note t2 = setChargeTargets_validates_before_posting
    [of 50 stand_in 90 "Inr post_ok" "''V1''" "Date (Some 0)" serverRates_init,
     THEN conjunct2, THEN conjunct1, rule_format, OF good refl]
  have a: "setChargeTargets stand_in (Inr post_ok) ''V1'' (Date (Some 0)) 55 90 serverRates_init =
     (Inl (ManagedBluelinkyError ''Charge target values are limited to 50, 60, 70, 80, 90, 100''),
      [], serverRates_init)"
    using t1 msg by (auto simp: prod_eq_iff)
  from t2 ok have b: "fst (setChargeTargets stand_in (Inr post_ok) ''V1'' (Date (Some 0)) 50 90 serverRates_init)
       = Inr ()"
    by blast
  from t2 have c: "fst (snd (setChargeTargets stand_in (Inr post_ok) ''V1'' (Date (Some 0)) 50 90 serverRates_init))
       = [\<lparr> url = ''/api/v2/spa/vehicles/V1/charge/target'',
            targetSOClist = [\<lparr> plugType = FAST, targetSOClevel = 50 \<rparr>,
                             \<lparr> plugType = SLOW, targetSOClevel = 90 \<rparr>] \<rparr>]"
    by simp
  from a b c show ?thesis by blast
qed

section \<open>C6: the two modes of the trip request\<close>

text \<open>
  C6, as stated, fails in two places. For a request with a day whose response has no
  \<^verbatim>\<open>dayTripList\<close>, \<^verbatim>\<open>tripInfo\<close> returns \<^verbatim>\<open>undefined\<close>, not an array of days. For a
  request with the day 0, \<^verbatim>\<open>Boolean(date.day)\<close> is false and \<^verbatim>\<open>tripInfo\<close> returns a
  month, although a day is supplied.
\<close>

theorem tripInfo_counterexample:
  "perDay (Some (Fin 15))
   \<and> tripInfo stand_in (Some (Fin 15)) (Date (Some 0)) no_trip_list_response serverRates_init
       = (Inr NoTrips, serverRates_init)
   \<and> (case fst (tripInfo stand_in (Some (Fin 0)) (Date (Some 0)) month_trip_response
                  serverRates_init) of
         Inl e \<Rightarrow> False
       | Inr r \<Rightarrow> (case r of MonthTrip m \<Rightarrow> length (days m) = 2 | _ \<Rightarrow> False))"
  by (simp add: tripInfo_def tripInfo_try_def perDay_def no_trip_list_response_def
      month_trip_response_def updateRates_def header_def truthy_header_def bindE_def dot_def
      qdot_def nullish_def month_day_def stand_in_def parseDate_stand_in_def Let_def)

text \<open>
  C6, amended. The mode is \<^verbatim>\<open>Boolean(date.day)\<close>: a date without a day, or with the day 0,
  is a monthly request. Whenever \<^verbatim>\<open>tripInfo\<close> returns: in the monthly mode the result is a
  month, whose \<^verbatim>\<open>speed.avg\<close> and \<^verbatim>\<open>speed.max\<close> are \<^verbatim>\<open>tripAvgSpeed\<close> and
  \<^verbatim>\<open>tripMaxSpeed\<close> of \<^verbatim>\<open>resMsg\<close> and whose \<^verbatim>\<open>days\<close> has one entry for each entry of
  \<^verbatim>\<open>resMsg.tripDayList\<close> (none when that is not an array); in the daily mode the result is
  \<^verbatim>\<open>undefined\<close> when \<^verbatim>\<open>resMsg.dayTripList\<close> is not an array, and otherwise a list with
  one day for each of its entries and, in each day, one trip for each entry of the day's
  \<^verbatim>\<open>tripList\<close>. The drive duration of a trip is the vendor's \<^verbatim>\<open>tripDrvTime\<close> and its
  \<^verbatim>\<open>end\<close> is \<^verbatim>\<open>addMinutes(start, tripDrvTime)\<close>; with \<^verbatim>\<open>addMinutes\<close> as the spec
  describes it, a trip that starts at millisecond \<open>s\<close> and drives \<open>m\<close> minutes ends at
  millisecond \<open>s + 60000 m\<close>.
\<close>

theorem tripInfo_modes:
  assumes "tripInfo X day now resp rates = (Inr result, rates')"
  shows
   "(\<not> perDay day \<longrightarrow>
       (\<exists>month. result = MonthTrip month
          \<and> VehicleMonthTrip.speed month =
              \<lparr> avg = qpath (body' resp) [''resMsg'', ''tripAvgSpeed''],
                Speed.max' = qpath (body' resp) [''resMsg'', ''tripMaxSpeed''] \<rparr>
          \<and> length (days month) =
              (case qpath (body' resp) [''resMsg'', ''tripDayList''] of
                 Arr ds \<Rightarrow> length ds | _ \<Rightarrow> 0)))
    \<and> (perDay day \<longrightarrow>
         (case qpath (body' resp) [''resMsg'', ''dayTripList''] of
            Arr ds \<Rightarrow>
              (\<exists>result_days. result = DayTrips result_days
                 \<and> list_all2
                      (\<lambda>raw d. list_all2
                         (\<lambda>trip t. drive (Trip.durations t) = lookup trip ''tripDrvTime'')
                         (case lookup raw ''tripList'' of Arr ts \<Rightarrow> ts | _ \<Rightarrow> []) (trips d))
                      ds result_days
                 \<and> (\<forall>d \<in> set result_days. \<forall>t \<in> set (trips d).
                       addMinutes X (start t) (drive (Trip.durations t)) = Inr (end' t))
                 \<and> (addMinutes X = addMinutes_spec \<longrightarrow>
                      (\<forall>d \<in> set result_days. \<forall>t \<in> set (trips d). \<forall>s m.
                         start t = Date (Some s)
                         \<and> drive (Trip.durations t) = Num (Fin (of_int m))
                         \<and> \<bar>s + 60000 * m\<bar> \<le> 8640000000000000 \<longrightarrow>
                         end' t = Date (Some (s + 60000 * m)))))
          | _ \<Rightarrow> result = NoTrips))"
proof (intro conjI impI)
  note run = tripInfo_Inr [OF assms]
  assume "\<not> perDay day"
  with run obtain rawData days0 where
    nn: "\<not> nullish (body' resp)" and raw: "rawData = lookup (body' resp) ''resMsg''"
    and ds: "(case qdot rawData ''tripDayList'' of Arr ds \<Rightarrow> mapE (month_day X) ds | _ \<Rightarrow> Inr [])
               = Inr days0"
    and res: "result = MonthTrip \<lparr>
       days = days0,
       VehicleMonthTrip.durations =
         \<lparr> drive = qdot rawData ''tripDrvTime'', idle = qdot rawData ''tripIdleTime'' \<rparr>,
       VehicleMonthTrip.distance = qdot rawData ''tripDist'',
       VehicleMonthTrip.speed =
         \<lparr> avg = qdot rawData ''tripAvgSpeed'', Speed.max' = qdot rawData ''tripMaxSpeed'' \<rparr> \<rparr>"
    unfolding tripInfo_try_def by (auto simp: bindE_Inr_iff dot_Inr_iff)
  have p: "qpath (body' resp) [''resMsg'', k] = qdot rawData k" for k
    using nn raw by (simp add: qpath_Cons qpath_Nil qdot_lookup)
  have len: "length days0 =
            (case qdot rawData ''tripDayList'' of Arr ds \<Rightarrow> length ds | _ \<Rightarrow> 0)"
    using ds by (cases "qdot rawData ''tripDayList''") (auto dest: mapE_Inr_length)
  show "\<exists>month. result = MonthTrip month
        \<and> VehicleMonthTrip.speed month =
            \<lparr> avg = qpath (body' resp) [''resMsg'', ''tripAvgSpeed''],
              Speed.max' = qpath (body' resp) [''resMsg'', ''tripMaxSpeed''] \<rparr>
        \<and> length (days month) =
            (case qpath (body' resp) [''resMsg'', ''tripDayList''] of
               Arr ds \<Rightarrow> length ds | _ \<Rightarrow> 0)"
    unfolding p res using len by simp
next
  note run = tripInfo_Inr [OF assms]
  assume "perDay day"
  with run obtain resMsg rawData where
    nn: "\<not> nullish (body' resp)" and msg: "resMsg = lookup (body' resp) ''resMsg''"
    and nm: "\<not> nullish resMsg" and raw: "rawData = lookup resMsg ''dayTripList''"
    and res: "(case rawData of
       Arr ds \<Rightarrow> bindE (mapE (day_trips X) ds) (\<lambda>result. Inr (DayTrips result))
     | _ \<Rightarrow> Inr NoTrips) = Inr result"
    unfolding tripInfo_try_def by (auto simp: bindE_Inr_iff dot_Inr_iff)
  have p: "qpath (body' resp) [''resMsg'', ''dayTripList''] = rawData"
    using nn msg nm raw by (simp add: qpath_Cons qpath_Nil qdot_lookup)
  show "case qpath (body' resp) [''resMsg'', ''dayTripList''] of
          Arr ds \<Rightarrow>
            (\<exists>result_days. result = DayTrips result_days
               \<and> list_all2
                    (\<lambda>raw d. list_all2
                       (\<lambda>trip t. drive (Trip.durations t) = lookup trip ''tripDrvTime'')
                       (case lookup raw ''tripList'' of Arr ts \<Rightarrow> ts | _ \<Rightarrow> []) (trips d))
                    ds result_days
               \<and> (\<forall>d \<in> set result_days. \<forall>t \<in> set (trips d).
                     addMinutes X (start t) (drive (Trip.durations t)) = Inr (end' t))
               \<and> (addMinutes X = addMinutes_spec \<longrightarrow>
                    (\<forall>d \<in> set result_days. \<forall>t \<in> set (trips d). \<forall>s m.
                       start t = Date (Some s)
                       \<and> drive (Trip.durations t) = Num (Fin (of_int m))
                       \<and> \<bar>s + 60000 * m\<bar> \<le> 8640000000000000 \<longrightarrow>
                       end' t = Date (Some (s + 60000 * m)))))
        | _ \<Rightarrow> result = NoTrips"
  proof (cases rawData)
    case (Arr ds)
    with res obtain rs where m: "mapE (day_trips X) ds = Inr rs" and r: "result = DayTrips rs"
      by (auto simp: bindE_Inr_iff)
    have corr: "list_all2
                    (\<lambda>raw d. list_all2
                       (\<lambda>trip t. drive (Trip.durations t) = lookup trip ''tripDrvTime'')
                       (case lookup raw ''tripList'' of Arr ts \<Rightarrow> ts | _ \<Rightarrow> []) (trips d))
                    ds rs"
      using mapE_Inr_list_all2 [OF m] by (rule list_all2_mono) (rule day_trips_drive)
    have ends: "\<forall>d \<in> set rs. \<forall>t \<in> set (trips d).
            addMinutes X (start t) (drive (Trip.durations t)) = Inr (end' t)"
    proof (intro ballI)
      fix d t assume "d \<in> set rs" and t: "t \<in> set (trips d)"
      from mapE_Inr_set [OF m this(1)] obtain day where "day_trips X day = Inr d" by blast
      from day_trips_end [OF this t]
      show "addMinutes X (start t) (drive (Trip.durations t)) = Inr (end' t)" .
    qed
    have arith: "addMinutes X = addMinutes_spec \<longrightarrow>
                    (\<forall>d \<in> set rs. \<forall>t \<in> set (trips d). \<forall>s m.
                       start t = Date (Some s)
                       \<and> drive (Trip.durations t) = Num (Fin (of_int m))
                       \<and> \<bar>s + 60000 * m\<bar> \<le> 8640000000000000 \<longrightarrow>
                       end' t = Date (Some (s + 60000 * m)))"
    proof (intro impI ballI allI)
      fix d t s m
      assume a: "addMinutes X = addMinutes_spec" and d: "d \<in> set rs" and t: "t \<in> set (trips d)"
        and h: "start t = Date (Some s)
                       \<and> drive (Trip.durations t) = Num (Fin (of_int m))
                       \<and> \<bar>s + 60000 * m\<bar> \<le> 8640000000000000"
      from ends d t have "addMinutes X (start t) (drive (Trip.durations t)) = Inr (end' t)"
        by blast
      with a h have "addMinutes_spec (Date (Some s)) (Num (Fin (of_int m))) = Inr (end' t)"
        by simp
      moreover from h have "addMinutes_spec (Date (Some s)) (Num (Fin (of_int m)))
                              = Inr (Date (Some (s + 60000 * m)))"
        by (intro addMinutes_spec_integer) simp
      ultimately show "end' t = Date (Some (s + 60000 * m))" by simp
    qed
    from r corr ends arith show ?thesis
      unfolding p Arr by simp
  qed (use res in \<open>auto simp: p\<close>)
qed

text \<open>A trip of 25 minutes that starts at 08:30:00 on 2024-01-15 ends at 08:55:00; the
  monthly response with two days gives a month of two days with the speeds of the response,
  for a request without a day and for a request with the day 0.\<close>

theorem tripInfo_modes_witness:
  "\<exists>d t m m0.
     tripInfo stand_in (Some (Fin 15)) (Date (Some 0)) day_trip_response serverRates_init
       = (Inr (DayTrips [d]), serverRates_init)
     \<and> trips d = [t]
     \<and> start t = Date (Some (utc_ms 2024 1 15 8 30 0))
     \<and> drive (Trip.durations t) = Num (Fin 25)
     \<and> end' t = Date (Some (utc_ms 2024 1 15 8 55 0))
     \<and> tripInfo stand_in None (Date (Some 0)) month_trip_response serverRates_init
       = (Inr (MonthTrip m), serverRates_init)
     \<and> length (days m) = 2
     \<and> VehicleMonthTrip.speed m = \<lparr> avg = Num (Fin 43), Speed.max' = Num (Fin 92) \<rparr>
     \<and> tripInfo stand_in (Some (Fin 0)) (Date (Some 0)) month_trip_response serverRates_init
       = (Inr (MonthTrip m0), serverRates_init)
     \<and> length (days m0) = 2"
proof -
  obtain d t where
    h: "tripInfo stand_in (Some (Fin 15)) (Date (Some 0)) day_trip_response serverRates_init
            = (Inr (DayTrips [d]), serverRates_init)"
    and t: "trips d = [t]" and s: "start t = Date (Some (utc_ms 2024 1 15 8 30 0))"
    and m: "drive (Trip.durations t) = Num (Fin 25)"
    using day_trip_response_result by blast
  have pd: "perDay (Some (Fin 15))" by (simp add: perDay_def)
  have arr: "qpath (body' day_trip_response) [''resMsg'', ''dayTripList''] = Arr [Obj [
          (''tripDay'', Str ''20240115''),
          (''dayTripCnt'', Num (Fin 1)),
          (''tripList'', Arr [Obj [
             (''tripTime'', Str ''083000''),
             (''tripDrvTime'', Num (Fin 25)),
             (''tripIdleTime'', Num (Fin 3)),
             (''tripDist'', Num (Fin 18)),
             (''tripAvgSpeed'', Num (Fin 43)),
             (''tripMaxSpeed'', Num (Fin 92))]])]]"
    by (simp add: day_trip_response_def qpath_def qdot_def nullish_def)
  have sp: "addMinutes stand_in = addMinutes_spec" by (simp add: stand_in_def)
  from tripInfo_modes [OF h, THEN conjunct2, rule_format, OF pd, unfolded arr js.case]
  obtain rd where r1: "DayTrips [d] = DayTrips rd"
    and r2: "addMinutes stand_in = addMinutes_spec \<longrightarrow>
               (\<forall>d \<in> set rd. \<forall>t \<in> set (trips d). \<forall>s m.
                  start t = Date (Some s)
                  \<and> drive (Trip.durations t) = Num (Fin (of_int m))
                  \<and> \<bar>s + 60000 * m\<bar> \<le> 8640000000000000 \<longrightarrow>
                  end' t = Date (Some (s + 60000 * m)))"
    by blast
  from r1 have rd: "rd = [d]" by simp
  have "end' t = Date (Some (utc_ms 2024 1 15 8 30 0 + 60000 * 25))"
  proof (rule r2 [rule_format, OF sp, of d t])
    show "d \<in> set rd" by (simp add: rd)
    show "t \<in> set (trips d)" by (simp add: t)
    show "start t = Date (Some (utc_ms 2024 1 15 8 30 0))
          \<and> drive (Trip.durations t) = Num (Fin (of_int 25))
          \<and> \<bar>utc_ms 2024 1 15 8 30 0 + 60000 * 25\<bar> \<le> 8640000000000000"
      using s m by (simp add: utc_ms_def days_from_civil_def)
  qed
  then have e: "end' t = Date (Some (utc_ms 2024 1 15 8 55 0))"
    by (simp add: utc_ms_def days_from_civil_def)
  obtain mo where
    h2: "tripInfo stand_in None (Date (Some 0)) month_trip_response serverRates_init
            = (Inr (MonthTrip mo), serverRates_init)"
    using month_trip_response_result by blast
  have np: "\<not> perDay None" by (simp add: perDay_def)
  from tripInfo_modes [OF h2, THEN conjunct1, rule_format, OF np]
  have a2: "length (days mo) = 2
     \<and> VehicleMonthTrip.speed mo = \<lparr> avg = Num (Fin 43), Speed.max' = Num (Fin 92) \<rparr>"
    by (simp add: month_trip_response_def qpath_def qdot_def nullish_def)
  obtain m0 where
    h3: "tripInfo stand_in (Some (Fin 0)) (Date (Some 0)) month_trip_response serverRates_init
            = (Inr (MonthTrip m0), serverRates_init)"
    using month_trip_response_day0_result by blast
  have n0: "\<not> perDay (Some (Fin 0))" by (simp add: perDay_def)
  from tripInfo_modes [OF h3, THEN conjunct1, rule_format, OF n0]
  have a3: "length (days m0) = 2"
    by (simp add: month_trip_response_def qpath_def qdot_def nullish_def)
  from h t s m e h2 a2 h3 a3 show ?thesis by blast
qed

section \<open>C7: the tire-pressure flags\<close>

text \<open>
  C7, as stated, fails on the legacy mapping: there each flag is \<^verbatim>\<open>!!code\<close>, so the vendor
  code 2 of the example payload gives a warning flag that is \<^verbatim>\<open>true\<close>.
\<close>

theorem legacy_tire_code_2_counterexample:
  "map_sum id (\<lambda>st. rearLeft (tirePressureWarningLamp (chassis st)))
     (parseVehicleStatus stand_in legacy_example) = Inr True
   \<and> qpath legacy_example [''tirePressureLamp'', ''tirePressureLampRL''] = Num (Fin 2)"
  by (simp add: parseVehicleStatus_def legacy_example_def stand_in_def bindE_def dot_def qdot_def
      nullish_def drvDistance0_def Let_def legacy_literal_def qpath_def)

text \<open>
  C7, amended. Whenever the CCS2 mapping returns a status, each of the five flags is the test
  \<^verbatim>\<open>PressureLow === 1\<close> on its field of \<^verbatim>\<open>state.Vehicle.Chassis.Axle\<close>; whenever the
  legacy mapping returns a status, each of the five flags is the truth value of its field of
  \<^verbatim>\<open>tirePressureLamp\<close>.
\<close>

theorem tire_pressure_flags_by_mapping:
  "(parseCCS2VehicleStatus X ccs2Body = Inr st \<longrightarrow>
      tirePressureWarningLamp (chassis st) = \<lparr>
        rearLeft = (qpath ccs2Body [''state'', ''Vehicle'', ''Chassis'', ''Axle'', ''Row2'', ''Left'',
                      ''Tire'', ''PressureLow''] = Num (Fin 1)),
        frontLeft = (qpath ccs2Body [''state'', ''Vehicle'', ''Chassis'', ''Axle'', ''Row1'', ''Left'',
                      ''Tire'', ''PressureLow''] = Num (Fin 1)),
        frontRight = (qpath ccs2Body [''state'', ''Vehicle'', ''Chassis'', ''Axle'', ''Row1'', ''Right'',
                      ''Tire'', ''PressureLow''] = Num (Fin 1)),
        rearRight = (qpath ccs2Body [''state'', ''Vehicle'', ''Chassis'', ''Axle'', ''Row2'', ''Right'',
                      ''Tire'', ''PressureLow''] = Num (Fin 1)),
        all = (qpath ccs2Body [''state'', ''Vehicle'', ''Chassis'', ''Axle'', ''Tire'',
                      ''PressureLow''] = Num (Fin 1)) \<rparr>)
   \<and>
   (parseVehicleStatus X legacyBody = Inr st' \<longrightarrow>
      tirePressureWarningLamp (chassis st') = \<lparr>
        rearLeft = truthy (qpath legacyBody [''tirePressureLamp'', ''tirePressureLampRL'']),
        frontLeft = truthy (qpath legacyBody [''tirePressureLamp'', ''tirePressureLampFL'']),
        frontRight = truthy (qpath legacyBody [''tirePressureLamp'', ''tirePressureLampFR'']),
        rearRight = truthy (qpath legacyBody [''tirePressureLamp'', ''tirePressureLampRR'']),
        all = truthy (qpath legacyBody [''tirePressureLamp'', ''tirePressureWarningLampAll'']) \<rparr>)"
proof (intro conjI impI)
  assume h: "parseCCS2VehicleStatus X ccs2Body = Inr st"
  from parseCCS2_Inr [OF h] obtain remaining updated where
    st: "st = ccs2_literal X (qpath ccs2Body [''state'', ''Vehicle''])
           (qpath ccs2Body [''state'', ''Vehicle'', ''Chassis'', ''Axle''])
           (qpath ccs2Body [''state'', ''Vehicle'', ''Cabin'', ''Door''])
           (qpath ccs2Body [''state'', ''Vehicle'', ''Green'', ''ChargingInformation''])
           remaining updated"
    by blast
  show "tirePressureWarningLamp (chassis st) = \<lparr>
        rearLeft = (qpath ccs2Body [''state'', ''Vehicle'', ''Chassis'', ''Axle'', ''Row2'', ''Left'',
                      ''Tire'', ''PressureLow''] = Num (Fin 1)),
        frontLeft = (qpath ccs2Body [''state'', ''Vehicle'', ''Chassis'', ''Axle'', ''Row1'', ''Left'',
                      ''Tire'', ''PressureLow''] = Num (Fin 1)),
        frontRight = (qpath ccs2Body [''state'', ''Vehicle'', ''Chassis'', ''Axle'', ''Row1'', ''Right'',
                      ''Tire'', ''PressureLow''] = Num (Fin 1)),
        rearRight = (qpath ccs2Body [''state'', ''Vehicle'', ''Chassis'', ''Axle'', ''Row2'', ''Right'',
                      ''Tire'', ''PressureLow''] = Num (Fin 1)),
        all = (qpath ccs2Body [''state'', ''Vehicle'', ''Chassis'', ''Axle'', ''Tire'',
                      ''PressureLow''] = Num (Fin 1)) \<rparr>"
    unfolding st ccs2_literal_def
    by (simp add: qpath_append strict_eq_num_def)
next
  assume h: "parseVehicleStatus X legacyBody = Inr st'"
  from parseVehicleStatus_Inr [OF h] obtain setpoint d0 updated where
    nn: "\<not> nullish legacyBody" and st: "st' = legacy_literal X legacyBody setpoint d0 updated"
    by blast
  show "tirePressureWarningLamp (chassis st') = \<lparr>
        rearLeft = truthy (qpath legacyBody [''tirePressureLamp'', ''tirePressureLampRL'']),
        frontLeft = truthy (qpath legacyBody [''tirePressureLamp'', ''tirePressureLampFL'']),
        frontRight = truthy (qpath legacyBody [''tirePressureLamp'', ''tirePressureLampFR'']),
        rearRight = truthy (qpath legacyBody [''tirePressureLamp'', ''tirePressureLampRR'']),
        all = truthy (qpath legacyBody [''tirePressureLamp'', ''tirePressureWarningLampAll'']) \<rparr>"
    unfolding st legacy_literal_def using nn
    by (simp add: qpath_Cons qpath_Nil qdot_lookup)
qed

text \<open>In the CCS2 example the wheel with code 2 has no warning and a wheel with code 1 has one;
  in the legacy example the wheel with code 2 has a warning and the aggregate code 0 has
  none.\<close>

theorem tire_pressure_flags_by_mapping_witness:
  "\<exists>st st'. parseCCS2VehicleStatus stand_in ccs2_example = Inr st
     \<and> parseVehicleStatus stand_in legacy_example = Inr st'
     \<and> \<not> frontLeft (tirePressureWarningLamp (chassis st))
     \<and> frontRight (tirePressureWarningLamp (chassis st))
     \<and> rearLeft (tirePressureWarningLamp (chassis st'))
     \<and> \<not> all (tirePressureWarningLamp (chassis st'))"
proof -
  obtain st where h: "parseCCS2VehicleStatus stand_in ccs2_example = Inr st"
    using ccs2_example_parses by blast
  obtain st' where h': "parseVehicleStatus stand_in legacy_example = Inr st'"
    using legacy_example_parses by blast
  from tire_pressure_flags_by_mapping [of stand_in ccs2_example st legacy_example st'] h h'
  have "\<not> frontLeft (tirePressureWarningLamp (chassis st))
     \<and> frontRight (tirePressureWarningLamp (chassis st))
     \<and> rearLeft (tirePressureWarningLamp (chassis st'))
     \<and> \<not> all (tirePressureWarningLamp (chassis st'))"
    by (simp add: ccs2_example_def legacy_example_def qpath_def qdot_def nullish_def)
  with h h' show ?thesis by blast
qed

section \<open>C8: the vehicle is locked exactly when its four doors are\<close>

text \<open>
  C8. Whenever the CCS2 mapping returns a status, \<^verbatim>\<open>chassis.locked\<close> is the conjunction of
  the four tests \<^verbatim>\<open>Lock === 1\<close> on \<^verbatim>\<open>Row1.Driver\<close>, \<^verbatim>\<open>Row1.Passenger\<close>,
  \<^verbatim>\<open>Row2.Left\<close> and \<^verbatim>\<open>Row2.Right\<close> of \<^verbatim>\<open>state.Vehicle.Cabin.Door\<close>: it is
  \<^verbatim>\<open>true\<close> when all four lock fields are the number 1 and \<^verbatim>\<open>false\<close> as soon as one
  of them is anything else.
\<close>

theorem ccs2_locked_iff_all_doors_locked:
  assumes "parseCCS2VehicleStatus X body = Inr st"
  shows "locked (chassis st) = Bool (
      qpath body [''state'', ''Vehicle'', ''Cabin'', ''Door'', ''Row1'', ''Driver'', ''Lock''] = Num (Fin 1) \<and>
      qpath body [''state'', ''Vehicle'', ''Cabin'', ''Door'', ''Row1'', ''Passenger'', ''Lock''] = Num (Fin 1) \<and>
      qpath body [''state'', ''Vehicle'', ''Cabin'', ''Door'', ''Row2'', ''Left'', ''Lock''] = Num (Fin 1) \<and>
      qpath body [''state'', ''Vehicle'', ''Cabin'', ''Door'', ''Row2'', ''Right'', ''Lock''] = Num (Fin 1))"
proof -
  from parseCCS2_Inr [OF assms] obtain remaining updated where
    st: "st = ccs2_literal X (qpath body [''state'', ''Vehicle''])
           (qpath body [''state'', ''Vehicle'', ''Chassis'', ''Axle''])
           (qpath body [''state'', ''Vehicle'', ''Cabin'', ''Door''])
           (qpath body [''state'', ''Vehicle'', ''Green'', ''ChargingInformation''])
           remaining updated"
    by blast
  show ?thesis
    unfolding st ccs2_literal_def
    by (simp add: qpath_append strict_eq_num_def)
qed


text \<open>The example payload has the four lock fields at 1, and its status is locked.\<close>

theorem ccs2_locked_iff_all_doors_locked_witness:
  "\<exists>st. parseCCS2VehicleStatus stand_in ccs2_example = Inr st \<and> locked (chassis st) = Bool True"
proof -
  obtain st where h: "parseCCS2VehicleStatus stand_in ccs2_example = Inr st"
    using ccs2_example_parses by blast
  from ccs2_locked_iff_all_doors_locked [OF h]
  have "locked (chassis st) = Bool True"
    by (simp add: ccs2_example_def qpath_def qdot_def nullish_def)
  with h show ?thesis by blast
qed


section \<open>C9: temperature codes and Celsius values\<close>

text \<open>
  C9. For a region whose table has a step other than zero: every Celsius value of the table
  is encoded to a code that decodes to the same value, exactly; every code of the table
  decodes to a value that is encoded to the same code; and decoding is a bijection between
  the codes of the table and its Celsius values.
\<close>

theorem temperature_round_trip:
  assumes "step (table region) \<noteq> 0"
  shows "(\<forall>c \<in> celsius_domain table region.
            \<exists>code. celsiusToCode table region c = Some code
                 \<and> codeToCelsius table region code = Some c)
       \<and> (\<forall>code < codes (table region).
            \<exists>c. codeToCelsius table region code = Some c
               \<and> celsiusToCode table region c = Some code)
       \<and> bij_betw (\<lambda>code. offset (table region) + of_nat code * step (table region))
            {..<codes (table region)} (celsius_domain table region)"
proof (intro conjI ballI allI impI)
  fix c assume "c \<in> celsius_domain table region"
  then obtain code where c: "c = offset (table region) + of_nat code * step (table region)"
    and lt: "code < codes (table region)"
    unfolding celsius_domain_def by auto
  have "celsiusToCode table region c = Some code"
    unfolding c using assms lt by (rule celsiusToCode_of_code [of table region])
  moreover have "codeToCelsius table region code = Some c"
    unfolding c codeToCelsius_def Let_def using lt by simp
  ultimately show "\<exists>code. celsiusToCode table region c = Some code
                 \<and> codeToCelsius table region code = Some c"
    by blast
next
  fix code assume lt: "code < codes (table region)"
  have "codeToCelsius table region code
          = Some (offset (table region) + of_nat code * step (table region))"
    unfolding codeToCelsius_def Let_def using lt by simp
  with celsiusToCode_of_code [of table region code, OF assms lt]
  show "\<exists>c. codeToCelsius table region code = Some c \<and> celsiusToCode table region c = Some code"
    by blast
next
  have "inj_on (\<lambda>code. offset (table region) + of_nat code * step (table region))
          {..<codes (table region)}"
    using assms by (auto simp: inj_on_def)
  then show "bij_betw (\<lambda>code. offset (table region) + of_nat code * step (table region))
            {..<codes (table region)} (celsius_domain table region)"
    unfolding celsius_domain_def by (rule inj_on_imp_bij_betw)
qed

text \<open>In a table that starts at 17 with step one half and 21 codes, 22 is code 10 and back,
  22.5 is code 11, and 22.2 is not a value of the table.\<close>

theorem temperature_round_trip_witness:
  "celsiusToCode example_table ''AU'' 22 = Some 10
   \<and> codeToCelsius example_table ''AU'' 10 = Some 22
   \<and> celsiusToCode example_table ''AU'' (45 / 2) = Some 11
   \<and> celsiusToCode example_table ''AU'' (111 / 5) = None"
proof -
  have s: "step (example_table ''AU'') \<noteq> 0" by (simp add: example_table_def)
  have lt: "10 < codes (example_table ''AU'')" by (simp add: example_table_def)
  from temperature_round_trip [of example_table "''AU''", OF s, THEN conjunct2, THEN conjunct1, rule_format, OF lt]
  obtain c where a: "codeToCelsius example_table ''AU'' 10 = Some c"
    and b: "celsiusToCode example_table ''AU'' c = Some 10"
    by blast
  from a have "c = 22" by (simp add: codeToCelsius_def example_table_def)
  with a b have "celsiusToCode example_table ''AU'' 22 = Some 10
     \<and> codeToCelsius example_table ''AU'' 10 = Some 22"
    by simp
  moreover have "celsiusToCode example_table ''AU'' (45 / 2) = Some 11"
    by (simp add: celsiusToCode_def example_table_def)
  moreover have "celsiusToCode example_table ''AU'' (111 / 5) = None"
    by code_simp
  ultimately show ?thesis by blast
qed

section \<open>C10: climate is reported active when the blower speed is missing\<close>

text \<open>
  C10. Whenever the CCS2 mapping returns a status, \<^verbatim>\<open>climate.active\<close> is the test
  \<^verbatim>\<open>SpeedLevel !== 0\<close> on \<^verbatim>\<open>state.Vehicle.Cabin.HVAC.Row1.Driver.Blower.SpeedLevel\<close>; so
  for a payload in which that read yields \<^verbatim>\<open>undefined\<close> (the field, or any object on the
  way to it, is absent), \<^verbatim>\<open>climate.active\<close> is \<^verbatim>\<open>true\<close>, since \<^verbatim>\<open>undefined\<close> is not
  \<^verbatim>\<open>0\<close>.
\<close>

theorem ccs2_active_when_blower_speed_absent:
  assumes "parseCCS2VehicleStatus X body = Inr st"
  shows "active (climate st) =
           Bool (qpath body [''state'', ''Vehicle'', ''Cabin'', ''HVAC'', ''Row1'', ''Driver'',
                   ''Blower'', ''SpeedLevel''] \<noteq> Num (Fin 0))
       \<and> (qpath body [''state'', ''Vehicle'', ''Cabin'', ''HVAC'', ''Row1'', ''Driver'', ''Blower'',
             ''SpeedLevel''] = Undefined \<longrightarrow> active (climate st) = Bool True)"
proof -
  from parseCCS2_Inr [OF assms] obtain remaining updated where
    st: "st = ccs2_literal X (qpath body [''state'', ''Vehicle''])
           (qpath body [''state'', ''Vehicle'', ''Chassis'', ''Axle''])
           (qpath body [''state'', ''Vehicle'', ''Cabin'', ''Door''])
           (qpath body [''state'', ''Vehicle'', ''Green'', ''ChargingInformation''])
           remaining updated"
    by blast
  show ?thesis
    unfolding st ccs2_literal_def
    by (simp add: qpath_append strict_eq_num_def)
qed

text \<open>The example payload has no \<^verbatim>\<open>HVAC\<close> object at all.\<close>

theorem ccs2_active_when_blower_speed_absent_witness:
  "\<exists>st. parseCCS2VehicleStatus stand_in ccs2_example = Inr st \<and> active (climate st) = Bool True"
proof -
  obtain st where h: "parseCCS2VehicleStatus stand_in ccs2_example = Inr st"
    using ccs2_example_parses by blast
  have a: "qpath ccs2_example [''state'', ''Vehicle'', ''Cabin'', ''HVAC'', ''Row1'', ''Driver'',
           ''Blower'', ''SpeedLevel''] = Undefined"
    by (simp add: ccs2_example_def qpath_def qdot_def nullish_def)
  from ccs2_active_when_blower_speed_absent [OF h, THEN conjunct2, rule_format, OF a] h
  show ?thesis by blast
qed

end
